theory Spec2Isabelle
  imports Complex_Main
begin

section \<open>The e-commerce backend: carts, checkout and the order lifecycle\<close>

text \<open>
  A shallow embedding of the route handlers of \<^verbatim>\<open>routes/cart.ts\<close>,
  \<^verbatim>\<open>routes/orders.ts\<close> and \<^verbatim>\<open>routes/payments.ts\<close>, together with the
  \<^verbatim>\<open>pre('save')\<close> hooks of the Cart and Order models.

  Conventions of the embedding:
  \<^item> a JavaScript \<^verbatim>\<open>number\<close> is a rational number. The \<^verbatim>\<open>pre('save')\<close> hooks, where the
    cent that a tax rounds to depends on it, compute as the source does in IEEE-754
    binary64: every operation is the exact operation followed by the rounding \<open>double\<close>
    to the nearest double, and a number that a hook reads from a line is read through
    \<open>double\<close>. The handlers' own assignments, each one sum, difference or product of
    quantities, prices and line totals, are written with the exact operation;
  \<^item> an ObjectId is a string in canonical form; \<^verbatim>\<open>new Date()\<close> is a parameter
    \<open>now\<close> of the handler, the id of a new document and the random part of an order
    number are parameters too;
  \<^item> an optional field that is absent (\<^verbatim>\<open>undefined\<close>) is \<open>None\<close>, and so is \<^verbatim>\<open>null\<close> where
    the handler tests the field for truthiness; the truthiness tests of the handlers
    (\<^verbatim>\<open>!x\<close>, \<^verbatim>\<open>x || y\<close>, \<^verbatim>\<open>if (x)\<close>) are written out. A \<^verbatim>\<open>null\<close> quantity in
    \<^verbatim>\<open>/cart/add\<close>, which the default of the destructuring does not replace, is not
    modelled;
  \<^item> the database is a record of three collections. Products and orders are only ever
    looked up by \<^verbatim>\<open>_id\<close>, so they are maps from ids to documents; carts are looked up
    by \<^verbatim>\<open>user\<close> or by \<^verbatim>\<open>sessionId\<close>, so the collection is a list of documents and
    \<^verbatim>\<open>findOne\<close> returns the first match together with its position, which serves as
    the document's identity for \<^verbatim>\<open>save\<close>;
  \<^item> \<^verbatim>\<open>save\<close> runs the \<^verbatim>\<open>pre('save')\<close> hooks and writes the document; schema validation
    is taken to pass (a validation error would end the request with status 500),
    the \<^verbatim>\<open>trim\<close> setter of the order's string fields is applied where a handler
    assigns them, and the \<^verbatim>\<open>createdAt\<close>/\<^verbatim>\<open>updatedAt\<close> timestamps that Mongoose keeps
    are left out of the documents;
  \<^item> the answers of the payment provider to the calls of \<^verbatim>\<open>services/stripe\<close> are
    parameters of the request; the body parsers that \<^verbatim>\<open>index.ts\<close> installs in front of
    the routes are modelled for the webhook, whose signature check depends on the form in
    which the body arrives;
  \<^item> a response is \<open>Inr\<close> of the returned document on success and \<open>Inl\<close> of an error
    otherwise; every handler returns the response and the new database.
\<close>

subsection \<open>Data model\<close>

type_synonym object_id = string
type_synonym number = rat
type_synonym date = nat

text \<open>\<^verbatim>\<open>IProduct\<close> (models/Product.ts), the fields the handlers read or write; the nested
  objects \<^verbatim>\<open>price\<close>, \<^verbatim>\<open>inventory\<close> and \<^verbatim>\<open>analytics\<close> are flattened.\<close>

record product =
  product_name :: string
  price_regular :: number
  price_sale :: "number option"
  inventory_quantity :: number
  inventory_trackQuantity :: bool
  analytics_purchases :: number
  analytics_revenue :: number
  isActive :: bool

text \<open>\<^verbatim>\<open>ICartItem\<close> and \<^verbatim>\<open>ICart\<close> (models/Cart.ts).\<close>

record cart_item =
  ci_product :: object_id
  ci_quantity :: number
  ci_price :: number
  ci_total :: number

record totals =
  subtotal :: number
  tax :: number
  shipping :: number
  total :: number

record cart =
  cart_sessionId :: "string option"
  cart_user :: "object_id option"
  cart_items :: "cart_item list"
  cart_totals :: totals

text \<open>\<^verbatim>\<open>IOrderItem\<close>, \<^verbatim>\<open>IShippingAddress\<close> and \<^verbatim>\<open>IOrder\<close> (models/Order.ts).\<close>

record order_item =
  oi_product :: object_id
  oi_name :: string
  oi_price :: number
  oi_quantity :: number
  oi_total :: number

record shipping_address =
  firstName :: string
  lastName :: string
  address :: string
  city :: string
  state :: string
  zipCode :: string
  country :: string
  phone :: "string option"

text \<open>The values of the \<^verbatim>\<open>paymentMethod\<close> enum of the order schema.\<close>

datatype payment_method = CreditCard | DebitCard | Paypal | Stripe | CashOnDelivery

datatype payment_status = PaymentPending | Paid | PaymentFailed | Refunded

datatype order_status = Pending | Confirmed | Processing | Shipped | Delivered | Cancelled

text \<open>The order number \<^verbatim>\<open>ORD-${timestamp}-${random}\<close> is kept as the pair of its parts.\<close>

record order =
  orderNumber :: "(date \<times> string) option"
  order_user :: object_id
  order_items :: "order_item list"
  order_totals :: totals
  shippingAddress :: shipping_address
  billingAddress :: "shipping_address option"
  paymentMethod :: payment_method
  paymentStatus :: payment_status
  orderStatus :: order_status
  order_notes :: "string option"
  trackingNumber :: "string option"
  estimatedDelivery :: "date option"
  deliveredAt :: "date option"
  paymentIntentId :: "string option"
  paidAt :: "date option"
  refundedAt :: "date option"
  refundReason :: "string option"

record db =
  products :: "object_id \<rightharpoonup> product"
  carts :: "cart list"
  orders :: "object_id \<rightharpoonup> order"

text \<open>The failures of the handlers, named as in the error taxonomy; the comment gives
  the status and the messages of the source.\<close>

datatype error =
    ValidationError        \<comment> \<open>400: a required field or the identity is missing\<close>
  | NotFound               \<comment> \<open>404: product, cart, cart line or order not found\<close>
  | InvalidQuantity        \<comment> \<open>400: Quantity must be at least 1\<close>
  | InsufficientInventory  \<comment> \<open>400: Insufficient inventory\<close>
  | EmptyCart              \<comment> \<open>400: Cart is empty\<close>
  | ProductUnavailable     \<comment> \<open>400: Product not found / is no longer available (checkout)\<close>
  | InvalidTransition      \<comment> \<open>400: Order cannot be cancelled at this stage / has not been
                               paid / payment is not pending\<close>
  | NoPaymentIntent        \<comment> \<open>400: No payment intent found for this order\<close>
  | PaymentProviderError   \<comment> \<open>500: the payment provider reported a failure\<close>
  | SignatureInvalid       \<comment> \<open>400: Webhook signature verification failed\<close>
  | Forbidden              \<comment> \<open>403: Access denied. Admin only.\<close>

subsection \<open>JavaScript and Mongoose helpers\<close>

text \<open>Truthiness of an optional string: \<^verbatim>\<open>undefined\<close>, \<^verbatim>\<open>null\<close> and \<^verbatim>\<open>''\<close> are falsy.\<close>

definition truthy :: "string option \<Rightarrow> bool" where
  "truthy s = (case s of None \<Rightarrow> False | Some v \<Rightarrow> v \<noteq> [])"

text \<open>\<^verbatim>\<open>x || null\<close> on an optional string.\<close>

definition or_null :: "string option \<Rightarrow> string option" where
  "or_null s = (if truthy s then s else None)"

text \<open>The \<^verbatim>\<open>trim: true\<close> setter of a schema string (\<^verbatim>\<open>String.prototype.trim\<close>), on
  ASCII strings: tab, line feed, vertical tab, form feed, carriage return and space are
  removed from both ends.\<close>

definition is_space :: "char \<Rightarrow> bool" where
  "is_space c = (c \<in> set [CHR 0x09, CHR 0x0A, CHR 0x0B, CHR 0x0C, CHR 0x0D, CHR '' ''])"

definition trim :: "string \<Rightarrow> string" where
  "trim v = rev (dropWhile is_space (rev (dropWhile is_space v)))"

text \<open>\<^verbatim>\<open>Array.prototype.findIndex\<close>: the first position that satisfies the predicate,
  \<open>None\<close> for \<^verbatim>\<open>-1\<close>.\<close>

fun findIndex :: "('a \<Rightarrow> bool) \<Rightarrow> 'a list \<Rightarrow> nat option" where
  "findIndex P [] = None"
| "findIndex P (x # xs) =
     (if P x then Some 0 else map_option Suc (findIndex P xs))"

text \<open>\<^verbatim>\<open>Model.findOne(query)\<close> on a collection kept as a list: the first matching document
  and its position.\<close>

definition findOne :: "('a \<Rightarrow> bool) \<Rightarrow> 'a list \<Rightarrow> (nat \<times> 'a) option" where
  "findOne P xs = map_option (\<lambda>i. (i, xs ! i)) (findIndex P xs)"

text \<open>\<^verbatim>\<open>Model.findOneAndDelete(query)\<close>: the first matching document is removed.\<close>

fun findOneAndDelete :: "('a \<Rightarrow> bool) \<Rightarrow> 'a list \<Rightarrow> 'a list" where
  "findOneAndDelete P [] = []"
| "findOneAndDelete P (x # xs) = (if P x then xs else x # findOneAndDelete P xs)"

text \<open>The cart queries of the handlers: \<^verbatim>\<open>{ user: userId }\<close> and \<^verbatim>\<open>{ sessionId }\<close>.\<close>

datatype cart_query = ByUser object_id | BySession string

fun matches :: "cart_query \<Rightarrow> cart \<Rightarrow> bool" where
  "matches (ByUser u) c = (cart_user c = Some u)"
| "matches (BySession sid) c = (cart_sessionId c = Some sid)"

text \<open>\<^verbatim>\<open>doc.save()\<close> of a cart: a new document is inserted, a found one is replaced in
  place.\<close>

definition save_cart :: "nat option \<Rightarrow> cart \<Rightarrow> cart list \<Rightarrow> cart list" where
  "save_cart pos c cs = (case pos of None \<Rightarrow> cs @ [c] | Some i \<Rightarrow> list_update cs i c)"

subsection \<open>Double arithmetic\<close>

text \<open>The binary exponent of a positive number, as binary64 uses it: the \<open>e\<close> with
  \<open>2 ^ e \<le> x < 2 ^ (e + 1)\<close>, kept between the least exponent -1022 (below it the
  doubles are subnormal and equally spaced) and the greatest exponent 1023. It is found
  by halving or doubling \<open>x\<close> at most that many times.\<close>

fun halvings :: "nat \<Rightarrow> rat \<Rightarrow> nat" where
  "halvings 0 x = 0"
| "halvings (Suc n) x = (if 2 \<le> x then Suc (halvings n (x / 2)) else 0)"

fun doublings :: "nat \<Rightarrow> rat \<Rightarrow> nat" where
  "doublings 0 x = 0"
| "doublings (Suc n) x = (if x < 1 then Suc (doublings n (x * 2)) else 0)"

definition exponent :: "rat \<Rightarrow> int" where
  "exponent x = (if 1 \<le> x then int (halvings 1023 x) else - int (doublings 1022 x))"

text \<open>The distance between neighbouring doubles at \<open>x\<close>: a double has 53 significant
  bits, so it is \<open>2 ^ (e - 52)\<close>.\<close>

definition ulp :: "rat \<Rightarrow> rat" where
  "ulp x = (let e = exponent x
            in if 52 \<le> e then 2 ^ nat (e - 52) else 1 / 2 ^ nat (52 - e))"

text \<open>Rounding to the nearest integer, a tie to the even one.\<close>

definition round_half_even :: "rat \<Rightarrow> int" where
  "round_half_even x =
     (let f = \<lfloor>x\<rfloor>; d = x - of_int f
      in if d < 1 / 2 then f else if 1 / 2 < d then f + 1 else if even f then f else f + 1)"

text \<open>The double nearest to a number, ties to the even significand (the rounding mode
  of JavaScript). Results of magnitude \<open>2 ^ 1024\<close> and more, which are \<^verbatim>\<open>Infinity\<close> in
  JavaScript, and the sign of zero are outside the model.\<close>

definition double :: "rat \<Rightarrow> number" where
  "double x = (if x = 0 then 0
               else sgn x * of_int (round_half_even (\<bar>x\<bar> / ulp \<bar>x\<bar>)) * ulp \<bar>x\<bar>)"

text \<open>The operators \<^verbatim>\<open>+\<close>, \<^verbatim>\<open>*\<close> and \<^verbatim>\<open>/\<close> on doubles, and \<^verbatim>\<open>Math.round\<close>, which
  rounds to the nearest integer with a tie upwards; the integer it returns for a double
  is a double.\<close>

definition js_add :: "number \<Rightarrow> number \<Rightarrow> number" where
  "js_add x y = double (x + y)"

definition js_mul :: "number \<Rightarrow> number \<Rightarrow> number" where
  "js_mul x y = double (x * y)"

definition js_div :: "number \<Rightarrow> number \<Rightarrow> number" where
  "js_div x y = double (x / y)"

definition Math_round :: "number \<Rightarrow> number" where
  "Math_round x = of_int \<lfloor>x + 1 / 2\<rfloor>"

subsection \<open>The pre-save hooks (models/Cart.ts, models/Order.ts)\<close>

text \<open>\<^verbatim>\<open>cartSchema.pre('save')\<close>: the subtotal is \<^verbatim>\<open>items.reduce((sum, item) => sum +
  item.total, 0)\<close>, the tax \<^verbatim>\<open>Math.round(subtotal * 0.1 * 100) / 100\<close>, the shipping
  \<^verbatim>\<open>subtotal >= 100 ? 0 : 10\<close> and the total \<^verbatim>\<open>subtotal + tax + shipping\<close>. The literal
  \<^verbatim>\<open>0.1\<close> is the double nearest to a tenth; products and sums associate to the left.\<close>

definition cart_pre_save :: "cart \<Rightarrow> cart" where
  "cart_pre_save c =
     (let sub = foldl (\<lambda>sum item. js_add sum (double (ci_total item))) 0 (cart_items c);
          tx = js_div (Math_round (js_mul (js_mul sub (double (1 / 10))) 100)) 100;
          ship = (if sub \<ge> 100 then 0 else 10)
      in c\<lparr>cart_totals := \<lparr>subtotal = sub, tax = tx, shipping = ship,
                            total = js_add (js_add sub tx) ship\<rparr>\<rparr>)"

text \<open>The two hooks of the order run in order. The first generates the order number for
  a new document without one (\<^verbatim>\<open>Date.now()\<close> and the random suffix are parameters); the
  second computes the totals, with \<^verbatim>\<open>Math.round(subtotal * 0.10 * 100) / 100\<close> for the
  tax.\<close>

definition generate_order_number :: "bool \<Rightarrow> date \<Rightarrow> string \<Rightarrow> order \<Rightarrow> order" where
  "generate_order_number isNew now rnd ord =
     (if isNew \<and> orderNumber ord = None then ord\<lparr>orderNumber := Some (now, rnd)\<rparr> else ord)"

definition order_pre_save :: "order \<Rightarrow> order" where
  "order_pre_save ord =
     (let sub = foldl (\<lambda>sum item. js_add sum (double (oi_total item))) 0 (order_items ord);
          tx = js_div (Math_round (js_mul (js_mul sub (double (10 / 100))) 100)) 100;
          ship = (if sub \<ge> 100 then 0 else 10)
      in ord\<lparr>order_totals := \<lparr>subtotal = sub, tax = tx, shipping = ship,
                               total = js_add (js_add sub tx) ship\<rparr>\<rparr>)"

subsection \<open>Cart handlers (routes/cart.ts)\<close>

record add_request =
  add_user :: "object_id option"         \<comment> \<open>\<^verbatim>\<open>req.user\<close>, set by \<^verbatim>\<open>optionalAuth\<close>\<close>
  add_productId :: "object_id option"
  add_quantity :: "number option"
  add_sessionId :: "string option"

text \<open>The query of the cart handlers: the user's cart when authenticated, the session's
  cart otherwise; \<open>None\<close> when neither identity is given.\<close>

definition cart_query_of :: "object_id option \<Rightarrow> string option \<Rightarrow> cart_query option" where
  "cart_query_of userId finalSessionId =
     (case userId of
        Some u \<Rightarrow> if u \<noteq> [] then Some (ByUser u)
                  else map_option BySession finalSessionId
      | None \<Rightarrow> map_option BySession finalSessionId)"

text \<open>\<^verbatim>\<open>product.price.sale || product.price.regular\<close>: a missing or zero sale price is
  falsy.\<close>

definition itemPrice :: "product \<Rightarrow> number" where
  "itemPrice p = (case price_sale p of
                    None \<Rightarrow> price_regular p
                  | Some sp \<Rightarrow> if sp = 0 then price_regular p else sp)"

text \<open>\<^verbatim>\<open>POST /cart/add\<close>.\<close>

definition addItem :: "add_request \<Rightarrow> db \<Rightarrow> (error + cart) \<times> db" where
  "addItem req s =
     (case add_productId req of
        None \<Rightarrow> (Inl ValidationError, s)
      | Some productId \<Rightarrow>
     if productId = [] then (Inl ValidationError, s) else
     let quantity = (case add_quantity req of None \<Rightarrow> 1 | Some q \<Rightarrow> q);
         finalSessionId = or_null (add_sessionId req)
     in
     (case cart_query_of (add_user req) finalSessionId of
        None \<Rightarrow> (Inl ValidationError, s)
      | Some query \<Rightarrow>
     (case products s productId of
        None \<Rightarrow> (Inl NotFound, s)
      | Some product \<Rightarrow>
     if inventory_trackQuantity product \<and> inventory_quantity product < quantity
     then (Inl InsufficientInventory, s) else
     let found = findOne (matches query) (carts s);
         cart0 = (case found of
                   None \<Rightarrow> \<lparr>cart_sessionId = finalSessionId,
                             cart_user = (if truthy (add_user req) then add_user req else None),
                             cart_items = [],
                             cart_totals = \<lparr>subtotal = 0, tax = 0, shipping = 0, total = 0\<rparr>\<rparr>
                 | Some (_, c) \<Rightarrow> c);
         items = cart_items cart0;
         cart1 = (case findIndex (\<lambda>item. ci_product item = productId) items of
                    Some i \<Rightarrow>
                      let line = items ! i;
                          q' = ci_quantity line + quantity;
                          line' = line\<lparr>ci_quantity := q', ci_total := q' * itemPrice product\<rparr>
                      in cart0\<lparr>cart_items := list_update items i line'\<rparr>
                  | None \<Rightarrow>
                      cart0\<lparr>cart_items :=
                              items @ [\<lparr>ci_product = productId, ci_quantity = quantity,
                                        ci_price = itemPrice product,
                                        ci_total = quantity * itemPrice product\<rparr>]\<rparr>);
         saved = cart_pre_save cart1
     in (Inr saved, s\<lparr>carts := save_cart (map_option fst found) saved (carts s)\<rparr>))))"

text \<open>\<^verbatim>\<open>PUT /cart/update\<close>. The test \<^verbatim>\<open>!quantity\<close> rejects a missing quantity and 0.\<close>

record update_request =
  upd_user :: "object_id option"
  upd_productId :: "object_id option"
  upd_quantity :: "number option"
  upd_sessionId :: "string option"

definition updateItem :: "update_request \<Rightarrow> db \<Rightarrow> (error + cart) \<times> db" where
  "updateItem req s =
     (case (upd_productId req, upd_quantity req) of
        (None, _) \<Rightarrow> (Inl ValidationError, s)
      | (_, None) \<Rightarrow> (Inl ValidationError, s)
      | (Some productId, Some quantity) \<Rightarrow>
     if productId = [] \<or> quantity = 0 then (Inl ValidationError, s) else
     if quantity < 1 then (Inl InvalidQuantity, s) else
     (case cart_query_of (upd_user req) (or_null (upd_sessionId req)) of
        None \<Rightarrow> (Inl ValidationError, s)
      | Some query \<Rightarrow>
     (case findOne (matches query) (carts s) of
        None \<Rightarrow> (Inl NotFound, s)
      | Some (pos, cart0) \<Rightarrow>
     (case findIndex (\<lambda>item. ci_product item = productId) (cart_items cart0) of
        None \<Rightarrow> (Inl NotFound, s)
      | Some itemIndex \<Rightarrow>
     (case products s productId of
        None \<Rightarrow> (Inl NotFound, s)
      | Some product \<Rightarrow>
     if inventory_trackQuantity product \<and> inventory_quantity product < quantity
     then (Inl InsufficientInventory, s) else
     let line = cart_items cart0 ! itemIndex;
         line' = line\<lparr>ci_quantity := quantity, ci_total := quantity * ci_price line\<rparr>;
         saved = cart_pre_save (cart0\<lparr>cart_items := list_update (cart_items cart0) itemIndex line'\<rparr>)
     in (Inr saved, s\<lparr>carts := save_cart (Some pos) saved (carts s)\<rparr>))))))"

text \<open>\<^verbatim>\<open>DELETE /cart/remove\<close> and \<^verbatim>\<open>DELETE /cart/clear\<close>.\<close>

record remove_request =
  rem_user :: "object_id option"
  rem_productId :: "object_id option"
  rem_sessionId :: "string option"

definition removeItem :: "remove_request \<Rightarrow> db \<Rightarrow> (error + cart) \<times> db" where
  "removeItem req s =
     (case rem_productId req of
        None \<Rightarrow> (Inl ValidationError, s)
      | Some productId \<Rightarrow>
     if productId = [] then (Inl ValidationError, s) else
     (case cart_query_of (rem_user req) (or_null (rem_sessionId req)) of
        None \<Rightarrow> (Inl ValidationError, s)
      | Some query \<Rightarrow>
     (case findOne (matches query) (carts s) of
        None \<Rightarrow> (Inl NotFound, s)
      | Some (pos, cart0) \<Rightarrow>
     let saved = cart_pre_save
                   (cart0\<lparr>cart_items := filter (\<lambda>item. ci_product item \<noteq> productId)
                                                 (cart_items cart0)\<rparr>)
     in (Inr saved, s\<lparr>carts := save_cart (Some pos) saved (carts s)\<rparr>))))"

record clear_request =
  clr_user :: "object_id option"
  clr_sessionId :: "string option"

definition clearCart :: "clear_request \<Rightarrow> db \<Rightarrow> (error + cart) \<times> db" where
  "clearCart req s =
     (case cart_query_of (clr_user req) (or_null (clr_sessionId req)) of
        None \<Rightarrow> (Inl ValidationError, s)
      | Some query \<Rightarrow>
     (case findOne (matches query) (carts s) of
        None \<Rightarrow> (Inl NotFound, s)
      | Some (pos, cart0) \<Rightarrow>
     let saved = cart_pre_save
                   (cart0\<lparr>cart_items := [],
                          cart_totals := \<lparr>subtotal = 0, tax = 0, shipping = 0, total = 0\<rparr>\<rparr>)
     in (Inr saved, s\<lparr>carts := save_cart (Some pos) saved (carts s)\<rparr>)))"

text \<open>\<^verbatim>\<open>POST /cart/merge\<close> (authenticated). The loop over the session cart's lines folds
  each line into the user's cart; a response without a cart is \<open>Inr None\<close>. The response
  re-reads the user's cart by \<^verbatim>\<open>_id\<close> after the session cart is deleted, and finds nothing
  when the two were one document.\<close>

fun merge_items :: "cart_item list \<Rightarrow> cart_item list \<Rightarrow> cart_item list" where
  "merge_items [] userItems = userItems"
| "merge_items (sessionItem # rest) userItems =
     merge_items rest
       (case findIndex (\<lambda>item. ci_product item = ci_product sessionItem) userItems of
          Some i \<Rightarrow>
            let line = userItems ! i;
                q' = ci_quantity line + ci_quantity sessionItem
            in list_update userItems i (line\<lparr>ci_quantity := q', ci_total := q' * ci_price line\<rparr>)
        | None \<Rightarrow> userItems @ [sessionItem])"

record merge_request =
  mrg_user :: object_id
  mrg_sessionId :: "string option"

definition mergeCart :: "merge_request \<Rightarrow> db \<Rightarrow> (error + cart option) \<times> db" where
  "mergeCart req s =
     (if \<not> truthy (mrg_sessionId req) then (Inr None, s) else
      let sessionId = the (mrg_sessionId req) in
      (case findOne (matches (BySession sessionId)) (carts s) of
        None \<Rightarrow> (Inr None, s)
      | Some (_, sessionCart) \<Rightarrow>
      if cart_items sessionCart = [] then (Inr None, s) else
      let found = findOne (matches (ByUser (mrg_user req))) (carts s);
          userCart = (case found of
                        None \<Rightarrow> \<lparr>cart_sessionId = None, cart_user = Some (mrg_user req),
                                  cart_items = cart_items sessionCart,
                                  cart_totals = cart_totals sessionCart\<rparr>
                      | Some (_, c) \<Rightarrow>
                          c\<lparr>cart_items := merge_items (cart_items sessionCart) (cart_items c)\<rparr>);
          saved = cart_pre_save userCart;
          savedAt = (case found of None \<Rightarrow> length (carts s) | Some (i, _) \<Rightarrow> i);
          carts1 = save_cart (map_option fst found) saved (carts s);
          carts2 = findOneAndDelete (matches (BySession sessionId)) carts1;
          mergedCart = (if findIndex (matches (BySession sessionId)) carts1 = Some savedAt
                        then None else Some saved)
      in (Inr mergedCart, s\<lparr>carts := carts2\<rparr>)))"

subsection \<open>Saving orders\<close>

text \<open>The string fields of the order schema that the handlers assign carry
  \<^verbatim>\<open>trim: true\<close>; so do the fields of an address.\<close>

definition trim_address :: "shipping_address \<Rightarrow> shipping_address" where
  "trim_address a =
     \<lparr>firstName = trim (firstName a), lastName = trim (lastName a), address = trim (address a),
      city = trim (city a), state = trim (state a), zipCode = trim (zipCode a),
      country = trim (country a), phone = map_option trim (phone a)\<rparr>"

text \<open>\<^verbatim>\<open>order.save()\<close> of a new document (\<^verbatim>\<open>isNew\<close>) and of a loaded one, for which
  the first hook does nothing.\<close>

definition insert_order :: "object_id \<Rightarrow> date \<Rightarrow> string \<Rightarrow> order \<Rightarrow> db \<Rightarrow> db" where
  "insert_order oid now rnd ord s =
     s\<lparr>orders := (orders s)(oid \<mapsto> order_pre_save (generate_order_number True now rnd ord))\<rparr>"

definition save_order :: "object_id \<Rightarrow> order \<Rightarrow> db \<Rightarrow> db" where
  "save_order oid ord s = s\<lparr>orders := (orders s)(oid \<mapsto> order_pre_save ord)\<rparr>"

text \<open>\<^verbatim>\<open>Order.findOne({ _id: orderId, user: userId })\<close>.\<close>

definition find_user_order :: "db \<Rightarrow> object_id \<Rightarrow> object_id \<Rightarrow> order option" where
  "find_user_order s orderId userId =
     (case orders s orderId of
        None \<Rightarrow> None
      | Some ord \<Rightarrow> if order_user ord = userId then Some ord else None)"

subsection \<open>Checkout and cancellation (routes/orders.ts)\<close>

text \<open>The clock, the random part of the order number and the id of the new order
  document are fields of the request.\<close>

record checkout_request =
  co_user :: object_id
  co_shippingAddress :: "shipping_address option"
  co_billingAddress :: "shipping_address option"
  co_paymentMethod :: "payment_method option"
  co_notes :: "string option"
  co_newId :: object_id
  co_now :: date
  co_random :: string

text \<open>First loop: every line's product must exist, be active and, when it tracks
  quantity, have enough stock. The first failing line ends the request.\<close>

fun verify_items :: "(object_id \<rightharpoonup> product) \<Rightarrow> cart_item list \<Rightarrow> error option" where
  "verify_items P [] = None"
| "verify_items P (item # rest) =
     (case P (ci_product item) of
        None \<Rightarrow> Some ProductUnavailable
      | Some product \<Rightarrow>
          if \<not> isActive product then Some ProductUnavailable
          else if inventory_trackQuantity product
                  \<and> inventory_quantity product < ci_quantity item
          then Some InsufficientInventory
          else verify_items P rest)"

text \<open>Second loop: the order lines. Name from the product; price, quantity and total
  from the cart line.\<close>

fun build_order_items :: "(object_id \<rightharpoonup> product) \<Rightarrow> cart_item list \<Rightarrow> order_item list" where
  "build_order_items P [] = []"
| "build_order_items P (item # rest) =
     (case P (ci_product item) of
        None \<Rightarrow> build_order_items P rest
      | Some product \<Rightarrow>
          \<lparr>oi_product = ci_product item, oi_name = product_name product,
           oi_price = ci_price item, oi_quantity = ci_quantity item,
           oi_total = ci_total item\<rparr> # build_order_items P rest)"

text \<open>Third loop: each line re-reads its product and, when the product tracks quantity,
  writes the decremented stock and the incremented analytics back.\<close>

fun update_inventory :: "cart_item list \<Rightarrow> (object_id \<rightharpoonup> product) \<Rightarrow> (object_id \<rightharpoonup> product)" where
  "update_inventory [] P = P"
| "update_inventory (item # rest) P =
     update_inventory rest
       (case P (ci_product item) of
          None \<Rightarrow> P
        | Some product \<Rightarrow>
            if inventory_trackQuantity product
            then P(ci_product item \<mapsto>
                   product\<lparr>inventory_quantity := inventory_quantity product - ci_quantity item,
                           analytics_purchases := analytics_purchases product + ci_quantity item,
                           analytics_revenue := analytics_revenue product + ci_total item\<rparr>)
            else P)"

text \<open>\<^verbatim>\<open>POST /orders/checkout\<close>.\<close>

definition checkout :: "checkout_request \<Rightarrow> db \<Rightarrow> (error + order) \<times> db" where
  "checkout req s =
     (case (co_shippingAddress req, co_paymentMethod req) of
        (None, _) \<Rightarrow> (Inl ValidationError, s)
      | (_, None) \<Rightarrow> (Inl ValidationError, s)
      | (Some shipping_address, Some payment_method) \<Rightarrow>
     (case findOne (matches (ByUser (co_user req))) (carts s) of
        None \<Rightarrow> (Inl EmptyCart, s)
      | Some (_, cart0) \<Rightarrow>
     if cart_items cart0 = [] then (Inl EmptyCart, s) else
     (case verify_items (products s) (cart_items cart0) of
        Some err \<Rightarrow> (Inl err, s)
      | None \<Rightarrow>
     let orderItems = build_order_items (products s) (cart_items cart0);
         order0 = \<lparr>orderNumber = None, order_user = co_user req, order_items = orderItems,
                   order_totals = cart_totals cart0,
                   shippingAddress = trim_address shipping_address,
                   billingAddress = Some (trim_address
                                            (case co_billingAddress req of
                                               None \<Rightarrow> shipping_address | Some b \<Rightarrow> b)),
                   paymentMethod = payment_method,
                   paymentStatus = PaymentPending, orderStatus = Pending,
                   order_notes = map_option trim (co_notes req),
                   trackingNumber = None, estimatedDelivery = None, deliveredAt = None,
                   paymentIntentId = None, paidAt = None, refundedAt = None,
                   refundReason = None\<rparr>;
         s1 = insert_order (co_newId req) (co_now req) (co_random req) order0 s;
         s2 = s1\<lparr>products := update_inventory (cart_items cart0) (products s1)\<rparr>;
         s3 = s2\<lparr>carts := findOneAndDelete (matches (ByUser (co_user req))) (carts s2)\<rparr>
     in (Inr (the (orders s3 (co_newId req))), s3))))"

text \<open>The loop of \<^verbatim>\<open>PATCH /orders/:id/cancel\<close>: the mirror image of the third loop of
  checkout, over the order's lines.\<close>

fun restore_inventory :: "order_item list \<Rightarrow> (object_id \<rightharpoonup> product) \<Rightarrow> (object_id \<rightharpoonup> product)" where
  "restore_inventory [] P = P"
| "restore_inventory (item # rest) P =
     restore_inventory rest
       (case P (oi_product item) of
          None \<Rightarrow> P
        | Some product \<Rightarrow>
            if inventory_trackQuantity product
            then P(oi_product item \<mapsto>
                   product\<lparr>inventory_quantity := inventory_quantity product + oi_quantity item,
                           analytics_purchases := analytics_purchases product - oi_quantity item,
                           analytics_revenue := analytics_revenue product - oi_total item\<rparr>)
            else P)"

record cancel_request =
  cn_user :: object_id
  cn_orderId :: object_id

definition cancel :: "cancel_request \<Rightarrow> db \<Rightarrow> (error + order) \<times> db" where
  "cancel req s =
     (case find_user_order s (cn_orderId req) (cn_user req) of
        None \<Rightarrow> (Inl NotFound, s)
      | Some order0 \<Rightarrow>
     if orderStatus order0 \<notin> set [Pending, Confirmed] then (Inl InvalidTransition, s) else
     let order1 = order0\<lparr>orderStatus := Cancelled\<rparr>;
         s1 = save_order (cn_orderId req) order1 s;
         s2 = s1\<lparr>products := restore_inventory (order_items order1) (products s1)\<rparr>
     in (Inr (the (orders s1 (cn_orderId req))), s2))"

text \<open>\<^verbatim>\<open>PATCH /orders/admin/:id/status\<close>: each field is assigned when the request gives
  it; \<^verbatim>\<open>deliveredAt\<close> is stamped when the requested status is \<^verbatim>\<open>delivered\<close>.\<close>

record status_request =
  st_role :: string
  st_orderId :: object_id
  st_orderStatus :: "order_status option"
  st_paymentStatus :: "payment_status option"
  st_trackingNumber :: "string option"
  st_estimatedDelivery :: "date option"
  st_now :: date

definition adminSetStatus :: "status_request \<Rightarrow> db \<Rightarrow> (error + order) \<times> db" where
  "adminSetStatus req s =
     (if st_role req \<noteq> ''admin'' then (Inl Forbidden, s) else
      (case orders s (st_orderId req) of
        None \<Rightarrow> (Inl NotFound, s)
      | Some order0 \<Rightarrow>
      let order1 = (case st_orderStatus req of
                      None \<Rightarrow> order0 | Some v \<Rightarrow> order0\<lparr>orderStatus := v\<rparr>);
          order2 = (case st_paymentStatus req of
                      None \<Rightarrow> order1 | Some v \<Rightarrow> order1\<lparr>paymentStatus := v\<rparr>);
          order3 = (if truthy (st_trackingNumber req)
                    then order2\<lparr>trackingNumber := map_option trim (st_trackingNumber req)\<rparr>
                    else order2);
          order4 = (case st_estimatedDelivery req of
                      None \<Rightarrow> order3 | Some d \<Rightarrow> order3\<lparr>estimatedDelivery := Some d\<rparr>);
          order5 = (if st_orderStatus req = Some Delivered
                    then order4\<lparr>deliveredAt := Some (st_now req)\<rparr> else order4);
          s1 = save_order (st_orderId req) order5 s
      in (Inr (the (orders s1 (st_orderId req))), s1)))"

subsection \<open>Payment handlers (routes/payments.ts)\<close>

text \<open>\<^verbatim>\<open>POST /payments/create-payment-intent\<close>. The provider's answer is \<open>None\<close> on
  failure and the client secret and intent id on success.\<close>

record intent_request =
  pi_user :: object_id
  pi_orderId :: "object_id option"
  pi_paymentResult :: "(string \<times> string) option"

definition createPaymentIntent :: "intent_request \<Rightarrow> db \<Rightarrow> (error + order) \<times> db" where
  "createPaymentIntent req s =
     (if \<not> truthy (pi_orderId req) then (Inl ValidationError, s) else
      (case find_user_order s (the (pi_orderId req)) (pi_user req) of
        None \<Rightarrow> (Inl NotFound, s)
      | Some order0 \<Rightarrow>
      if paymentStatus order0 \<noteq> PaymentPending then (Inl InvalidTransition, s) else
      (case pi_paymentResult req of
        None \<Rightarrow> (Inl PaymentProviderError, s)
      | Some (clientSecret, intentId) \<Rightarrow>
      let order1 = order0\<lparr>paymentIntentId := Some (trim intentId)\<rparr>;
          s1 = save_order (the (pi_orderId req)) order1 s
      in (Inr (the (orders s1 (the (pi_orderId req)))), s1))))"

text \<open>\<^verbatim>\<open>POST /payments/confirm-payment\<close>. The provider's answer is \<open>None\<close> on failure and
  the status of the intent on success.\<close>

record confirm_request =
  cf_user :: object_id
  cf_orderId :: "object_id option"
  cf_paymentIntentId :: "string option"
  cf_confirmResult :: "string option"
  cf_now :: date

definition confirmPayment :: "confirm_request \<Rightarrow> db \<Rightarrow> (error + order) \<times> db" where
  "confirmPayment req s =
     (if \<not> truthy (cf_orderId req) \<or> \<not> truthy (cf_paymentIntentId req)
      then (Inl ValidationError, s) else
      (case find_user_order s (the (cf_orderId req)) (cf_user req) of
        None \<Rightarrow> (Inl NotFound, s)
      | Some order0 \<Rightarrow>
      (case cf_confirmResult req of
        None \<Rightarrow> (Inl PaymentProviderError, s)
      | Some status \<Rightarrow>
      let order1 = (if status = ''succeeded''
                    then order0\<lparr>paymentStatus := Paid, orderStatus := Confirmed,
                                paidAt := Some (cf_now req)\<rparr>
                    else if status = ''requires_payment_method''
                    then order0\<lparr>paymentStatus := PaymentFailed\<rparr>
                    else order0);
          s1 = save_order (the (cf_orderId req)) order1 s
      in (Inr (the (orders s1 (the (cf_orderId req)))), s1))))"

text \<open>\<^verbatim>\<open>POST /payments/refund\<close>. The query
  \<^verbatim>\<open>{ _id: orderId, $or: [{ user: userId }, { user: { $exists: true } }] }\<close> matches every
  order with that id, since \<^verbatim>\<open>user\<close> is a required field. The provider's answer is
  whether the refund succeeded.\<close>

record refund_request =
  rf_user :: object_id
  rf_orderId :: object_id
  rf_amount :: "number option"
  rf_reason :: "string option"
  rf_refundResult :: bool
  rf_now :: date

definition refund :: "refund_request \<Rightarrow> db \<Rightarrow> (error + order) \<times> db" where
  "refund req s =
     (case orders s (rf_orderId req) of
        None \<Rightarrow> (Inl NotFound, s)
      | Some order0 \<Rightarrow>
      if paymentStatus order0 \<noteq> Paid then (Inl InvalidTransition, s) else
      if \<not> truthy (paymentIntentId order0) then (Inl NoPaymentIntent, s) else
      if \<not> rf_refundResult req then (Inl PaymentProviderError, s) else
      let order1 = order0\<lparr>paymentStatus := Refunded, orderStatus := Cancelled,
                          refundedAt := Some (rf_now req)\<rparr>;
          order2 = (if truthy (rf_reason req)
                    then order1\<lparr>refundReason := map_option trim (rf_reason req)\<rparr>
                    else order1);
          s1 = save_order (rf_orderId req) order2 s
      in (Inr (the (orders s1 (rf_orderId req))), s1))"

text \<open>\<^verbatim>\<open>POST /payments/webhook\<close>. What the handler finds in \<^verbatim>\<open>req.body\<close> depends on the
  body parsers in front of it: the body that no parser has read, the \<^verbatim>\<open>Buffer\<close> of its
  bytes that \<^verbatim>\<open>express.raw\<close> has read, or the object that \<^verbatim>\<open>express.json\<close> has parsed
  from it.\<close>

datatype request_body = Unread | RawBuffer | ParsedObject

text \<open>\<^verbatim>\<open>app.use(express.json({ limit: '10mb' }))\<close> (index.ts, in front of every route)
  parses the body of a request whose content type is JSON and marks it as parsed;
  \<^verbatim>\<open>express.raw({ type: 'application/json' })\<close> on the webhook route reads the bytes of such
  a request unless the body has been parsed already. Either parser passes a request of
  another content type on as it is. (A body that is not well-formed JSON ends the request
  in \<^verbatim>\<open>express.json\<close> with status 400, before the route.)\<close>

definition express_json :: "bool \<Rightarrow> request_body \<Rightarrow> request_body" where
  "express_json isJson body =
     (case body of Unread \<Rightarrow> if isJson then ParsedObject else Unread | _ \<Rightarrow> body)"

definition express_raw :: "bool \<Rightarrow> request_body \<Rightarrow> request_body" where
  "express_raw isJson body =
     (case body of Unread \<Rightarrow> if isJson then RawBuffer else Unread | _ \<Rightarrow> body)"

text \<open>The events that the handler distinguishes, with \<^verbatim>\<open>metadata.orderId\<close> of the payment
  intent.\<close>

datatype stripe_event =
    PaymentIntentSucceeded "object_id option"
  | PaymentIntentPaymentFailed "object_id option"
  | OtherEvent

text \<open>\<^verbatim>\<open>handleStripeWebhook\<close> (services/stripe): \<^verbatim>\<open>stripe.webhooks.constructEvent\<close> checks
  the signature over the bytes of the payload and parses them, so it throws for a payload
  that is not the raw body; for the raw body its answer is the provider's, \<open>constructed\<close>
  (\<open>None\<close> when the signature does not match).\<close>

definition handleStripeWebhook :: "request_body \<Rightarrow> stripe_event option \<Rightarrow> stripe_event option" where
  "handleStripeWebhook body constructed =
     (case body of RawBuffer \<Rightarrow> constructed | _ \<Rightarrow> None)"

record webhook_request =
  wh_json :: bool                        \<comment> \<open>the content type is \<^verbatim>\<open>application/json\<close>\<close>
  wh_event :: "stripe_event option"      \<comment> \<open>what \<^verbatim>\<open>constructEvent\<close> makes of the raw body\<close>
  wh_now :: date

definition webhook :: "webhook_request \<Rightarrow> db \<Rightarrow> (error + unit) \<times> db" where
  "webhook req s =
     (let body = express_raw (wh_json req) (express_json (wh_json req) Unread)
      in
      (case handleStripeWebhook body (wh_event req) of
        None \<Rightarrow> (Inl SignatureInvalid, s)
      | Some (PaymentIntentSucceeded orderId) \<Rightarrow>
          if truthy orderId then
            (case orders s (the orderId) of
               None \<Rightarrow> (Inr (), s)
             | Some order0 \<Rightarrow>
                 (Inr (), save_order (the orderId)
                            (order0\<lparr>paymentStatus := Paid, orderStatus := Confirmed,
                                    paidAt := Some (wh_now req)\<rparr>) s))
          else (Inr (), s)
      | Some (PaymentIntentPaymentFailed orderId) \<Rightarrow>
          if truthy orderId then
            (case orders s (the orderId) of
               None \<Rightarrow> (Inr (), s)
             | Some order0 \<Rightarrow>
                 (Inr (), save_order (the orderId) (order0\<lparr>paymentStatus := PaymentFailed\<rparr>) s))
          else (Inr (), s)
      | Some OtherEvent \<Rightarrow> (Inr (), s)))"

subsection \<open>All requests\<close>

datatype request =
    AddItem add_request
  | UpdateItem update_request
  | RemoveItem remove_request
  | ClearCart clear_request
  | MergeCart merge_request
  | Checkout checkout_request
  | Cancel cancel_request
  | AdminSetStatus status_request
  | CreatePaymentIntent intent_request
  | ConfirmPayment confirm_request
  | Refund refund_request
  | Webhook webhook_request

text \<open>The database after a request.\<close>

fun handle :: "request \<Rightarrow> db \<Rightarrow> db" where
  "handle (AddItem r) s = snd (addItem r s)"
| "handle (UpdateItem r) s = snd (updateItem r s)"
| "handle (RemoveItem r) s = snd (removeItem r s)"
| "handle (ClearCart r) s = snd (clearCart r s)"
| "handle (MergeCart r) s = snd (mergeCart r s)"
| "handle (Checkout r) s = snd (checkout r s)"
| "handle (Cancel r) s = snd (cancel r s)"
| "handle (AdminSetStatus r) s = snd (adminSetStatus r s)"
| "handle (CreatePaymentIntent r) s = snd (createPaymentIntent r s)"
| "handle (ConfirmPayment r) s = snd (confirmPayment r s)"
| "handle (Refund r) s = snd (refund r s)"
| "handle (Webhook r) s = snd (webhook r s)"

section \<open>Notions used to state the properties\<close>

subsection \<open>The totals formula\<close>

text \<open>The formula as the specification writes it, over the decimal amounts: rounding
  to two decimals, \<^verbatim>\<open>round(x, 2)\<close>, and \<^verbatim>\<open>tax = round(subtotal * 0.10, 2)\<close>.\<close>

definition round2 :: "number \<Rightarrow> number" where
  "round2 x = of_int (round (x * 100)) / 100"

definition decimal_tax :: "number \<Rightarrow> number" where
  "decimal_tax sub = round2 (sub * (10 / 100))"

text \<open>The formula in JavaScript's arithmetic. The sum of the line totals adds them from
  left to right, starting from 0; rounding to two decimals is
  \<^verbatim>\<open>Math.round(x * 100) / 100\<close>; \<^verbatim>\<open>subtotal\<close> is the sum of the line totals, \<^verbatim>\<open>tax\<close> is
  \<^verbatim>\<open>subtotal * 0.10\<close> rounded to two decimals, \<^verbatim>\<open>shipping\<close> is 0 from a subtotal of 100 on
  and 10 below, and \<^verbatim>\<open>total\<close> is \<^verbatim>\<open>subtotal + tax + shipping\<close>.\<close>

definition js_sum :: "number list \<Rightarrow> number" where
  "js_sum xs = foldl js_add 0 (map double xs)"

definition js_round2 :: "number \<Rightarrow> number" where
  "js_round2 x = js_div (Math_round (js_mul x 100)) 100"

definition totals_formula :: "number list \<Rightarrow> totals \<Rightarrow> bool" where
  "totals_formula line_totals t =
     (subtotal t = js_sum line_totals
      \<and> tax t = js_round2 (js_mul (subtotal t) (double (10 / 100)))
      \<and> shipping t = (if subtotal t \<ge> 100 then 0 else 10)
      \<and> total t = js_add (js_add (subtotal t) (tax t)) (shipping t))"

definition cart_totals_ok :: "cart \<Rightarrow> bool" where
  "cart_totals_ok c = totals_formula (map ci_total (cart_items c)) (cart_totals c)"

definition order_totals_ok :: "order \<Rightarrow> bool" where
  "order_totals_ok ord = totals_formula (map oi_total (order_items ord)) (order_totals ord)"

text \<open>What a request may do to the stored documents: nothing, or save one cart, or save
  one order; and the property that every stored document is either one that was there
  before or satisfies the formula.\<close>

definition saves_cart :: "db \<Rightarrow> db \<Rightarrow> bool" where
  "saves_cart s s' =
     (s' = s \<or> (\<exists>pos c. s' = s\<lparr>carts := save_cart pos (cart_pre_save c) (carts s)\<rparr>))"

definition saves_order :: "db \<Rightarrow> db \<Rightarrow> bool" where
  "saves_order s s' = (s' = s \<or> (\<exists>oid ord. s' = save_order oid ord s))"

definition totals_kept :: "db \<Rightarrow> db \<Rightarrow> bool" where
  "totals_kept s s' =
     ((\<forall>c \<in> set (carts s'). c \<in> set (carts s) \<or> cart_totals_ok c)
      \<and> (\<forall>oid ord. orders s' oid = Some ord \<longrightarrow>
            orders s oid = Some ord \<or> order_totals_ok ord))"

subsection \<open>Net inventory adjustments\<close>

text \<open>The net change that lines make to a product that tracks quantity: the stock goes
  down by \<open>dq\<close>, the purchases go up by \<open>dq\<close> and the revenue goes up by \<open>dt\<close>. A product
  that does not track quantity is left as it is.\<close>

definition adjust :: "number \<Rightarrow> number \<Rightarrow> product \<Rightarrow> product" where
  "adjust dq dt p =
     (if inventory_trackQuantity p
      then p\<lparr>inventory_quantity := inventory_quantity p - dq,
             analytics_purchases := analytics_purchases p + dq,
             analytics_revenue := analytics_revenue p + dt\<rparr>
      else p)"

text \<open>The quantity and the line total that the lines of a cart, or of an order, hold for
  a product.\<close>

definition ordered_quantity :: "cart_item list \<Rightarrow> object_id \<Rightarrow> number" where
  "ordered_quantity items pid =
     sum_list (map ci_quantity (filter (\<lambda>item. ci_product item = pid) items))"

definition ordered_total :: "cart_item list \<Rightarrow> object_id \<Rightarrow> number" where
  "ordered_total items pid =
     sum_list (map ci_total (filter (\<lambda>item. ci_product item = pid) items))"



text \<open>The carts of a user, in the order of the collection; \<^verbatim>\<open>findOne({ user })\<close> returns
  the first.\<close>

definition user_carts :: "object_id \<Rightarrow> db \<Rightarrow> cart list" where
  "user_carts u s = filter (matches (ByUser u)) (carts s)"

text \<open>What a cart line and an order line have in common: product, unit price, quantity
  and line total.\<close>

definition line_of_cart_item :: "cart_item \<Rightarrow> object_id \<times> number \<times> number \<times> number" where
  "line_of_cart_item item = (ci_product item, ci_price item, ci_quantity item, ci_total item)"

definition line_of_order_item :: "order_item \<Rightarrow> object_id \<times> number \<times> number \<times> number" where
  "line_of_order_item item = (oi_product item, oi_price item, oi_quantity item, oi_total item)"

text \<open>The delivery of a \<^verbatim>\<open>payment_intent.succeeded\<close> event of an order, as the provider
  sends it: a JSON body with a signature that matches its bytes, received at time
  \<open>now\<close>.\<close>

definition payment_succeeded :: "object_id \<Rightarrow> date \<Rightarrow> webhook_request" where
  "payment_succeeded orderId now =
     \<lparr>wh_json = True, wh_event = Some (PaymentIntentSucceeded (Some orderId)), wh_now = now\<rparr>"

subsection \<open>Well-formed carts\<close>

text \<open>A cart has at most one line per product, and a user has at most one cart.\<close>

definition products_distinct :: "cart \<Rightarrow> bool" where
  "products_distinct c = distinct (map ci_product (cart_items c))"

definition cart_list_wf :: "cart list \<Rightarrow> bool" where
  "cart_list_wf cs =
     ((\<forall>u. length (filter (matches (ByUser u)) cs) \<le> 1) \<and> (\<forall>c \<in> set cs. products_distinct c))"

definition carts_wf :: "db \<Rightarrow> bool" where
  "carts_wf s = cart_list_wf (carts s)"

subsection \<open>Example data\<close>

text \<open>A product that tracks its stock and one that does not.\<close>

definition ex_widget :: product where
  "ex_widget = \<lparr>product_name = ''Widget'', price_regular = 60, price_sale = None,
                inventory_quantity = 5, inventory_trackQuantity = True,
                analytics_purchases = 0, analytics_revenue = 0, isActive = True\<rparr>"

definition ex_ebook :: product where
  "ex_ebook = \<lparr>product_name = ''E-book'', price_regular = 20, price_sale = None,
               inventory_quantity = 0, inventory_trackQuantity = False,
               analytics_purchases = 0, analytics_revenue = 0, isActive = True\<rparr>"

text \<open>The saved cart of user \<^verbatim>\<open>u1\<close> with the given lines, and a database with the two
  products, the given carts and no order.\<close>

definition ex_cart :: "cart_item list \<Rightarrow> cart" where
  "ex_cart items = cart_pre_save \<lparr>cart_sessionId = None, cart_user = Some ''u1'',
                      cart_items = items,
                      cart_totals = \<lparr>subtotal = 0, tax = 0, shipping = 0, total = 0\<rparr>\<rparr>"

definition ex_db :: "cart list \<Rightarrow> db" where
  "ex_db cs = \<lparr>products = [''p1'' \<mapsto> ex_widget, ''p2'' \<mapsto> ex_ebook], carts = cs,
               orders = Map.empty\<rparr>"

definition ex_widget_line :: cart_item where
  "ex_widget_line = \<lparr>ci_product = ''p1'', ci_quantity = 2, ci_price = 60, ci_total = 120\<rparr>"

definition ex_ebook_line :: cart_item where
  "ex_ebook_line = \<lparr>ci_product = ''p2'', ci_quantity = 2, ci_price = 20, ci_total = 40\<rparr>"

text \<open>A line that was added when the widget cost 50.\<close>

definition ex_old_line :: cart_item where
  "ex_old_line = \<lparr>ci_product = ''p1'', ci_quantity = 1, ci_price = 50, ci_total = 50\<rparr>"

definition ex_add :: "object_id \<Rightarrow> number \<Rightarrow> add_request" where
  "ex_add pid q = \<lparr>add_user = Some ''u1'', add_productId = Some pid, add_quantity = Some q,
                    add_sessionId = None\<rparr>"

definition ex_update :: update_request where
  "ex_update = \<lparr>upd_user = Some ''u1'', upd_productId = Some ''p1'', upd_quantity = Some 3,
                 upd_sessionId = None\<rparr>"

definition ex_address :: shipping_address where
  "ex_address = \<lparr>firstName = ''Ada'', lastName = ''Lovelace'', address = ''1 Main St'',
                 city = ''London'', state = ''LN'', zipCode = ''00001'', country = ''UK'',
                 phone = None\<rparr>"

definition ex_checkout :: checkout_request where
  "ex_checkout = \<lparr>co_user = ''u1'', co_shippingAddress = Some ex_address,
                  co_billingAddress = None, co_paymentMethod = Some Stripe,
                  co_notes = None, co_newId = ''o1'', co_now = 1000, co_random = ''AB12''\<rparr>"

text \<open>A catalog price change of the widget, made between two requests.\<close>

definition ex_reprice :: "number \<Rightarrow> db \<Rightarrow> db" where
  "ex_reprice new_price s =
     s\<lparr>products := (products s)(''p1'' \<mapsto> ex_widget\<lparr>price_regular := new_price\<rparr>)\<rparr>"

text \<open>An order of user \<^verbatim>\<open>u1\<close> for two widgets, in a given state, and the database that
  holds it after the sale.\<close>

definition ex_order :: "order_status \<Rightarrow> payment_status \<Rightarrow> order" where
  "ex_order st pst =
     \<lparr>orderNumber = Some (1000, ''AB12''), order_user = ''u1'',
      order_items = [\<lparr>oi_product = ''p1'', oi_name = ''Widget'', oi_price = 60,
                      oi_quantity = 2, oi_total = 120\<rparr>],
      order_totals = \<lparr>subtotal = 120, tax = 12, shipping = 0, total = 132\<rparr>,
      shippingAddress = ex_address, billingAddress = Some ex_address,
      paymentMethod = Stripe, paymentStatus = pst, orderStatus = st,
      order_notes = None, trackingNumber = None, estimatedDelivery = None,
      deliveredAt = None, paymentIntentId = Some ''pi_1'', paidAt = None,
      refundedAt = None, refundReason = None\<rparr>"

definition ex_widget_sold :: product where
  "ex_widget_sold = ex_widget\<lparr>inventory_quantity := 3, analytics_purchases := 2,
                              analytics_revenue := 120\<rparr>"

definition ex_order_db :: "order_status \<Rightarrow> payment_status \<Rightarrow> db" where
  "ex_order_db st pst =
     \<lparr>products = [''p1'' \<mapsto> ex_widget_sold, ''p2'' \<mapsto> ex_ebook], carts = [],
      orders = [''o1'' \<mapsto> ex_order st pst]\<rparr>"

definition ex_cancel :: cancel_request where
  "ex_cancel = \<lparr>cn_user = ''u1'', cn_orderId = ''o1''\<rparr>"




text \<open>A product priced 10.35 and one priced 0.24999999999999997, the double next below
  a quarter, in a database without carts.\<close>

definition ex_gadget :: product where
  "ex_gadget = \<lparr>product_name = ''Gadget'', price_regular = 207 / 20, price_sale = None,
                inventory_quantity = 5, inventory_trackQuantity = True,
                analytics_purchases = 0, analytics_revenue = 0, isActive = True\<rparr>"

definition ex_sample :: product where
  "ex_sample = \<lparr>product_name = ''Sample'',
                price_regular = 9007199254740991 / 36028797018963968, price_sale = None,
                inventory_quantity = 5, inventory_trackQuantity = True,
                analytics_purchases = 0, analytics_revenue = 0, isActive = True\<rparr>"

definition ex_cents_db :: db where
  "ex_cents_db = \<lparr>products = [''p3'' \<mapsto> ex_gadget, ''p4'' \<mapsto> ex_sample], carts = [],
                  orders = Map.empty\<rparr>"

definition ex_refund :: refund_request where
  "ex_refund = \<lparr>rf_user = ''u1'', rf_orderId = ''o1'', rf_amount = None,
                 rf_reason = Some ''damaged'', rf_refundResult = True, rf_now = 3000\<rparr>"

section \<open>Auxiliary facts\<close>

text \<open>The hooks with their local bindings unfolded.\<close>

lemmas cart_pre_save_unfold = cart_pre_save_def [unfolded Let_def]

lemmas order_pre_save_unfold = order_pre_save_def [unfolded Let_def]

subsection \<open>Lists and collections\<close>

lemma findIndex_SomeD: "findIndex P xs = Some i \<Longrightarrow> i < length xs \<and> P (xs ! i)"
  by (induction xs arbitrary: i) (auto split: if_splits)

lemma findIndex_None: "findIndex P xs = None \<longleftrightarrow> (\<forall>x \<in> set xs. \<not> P x)"
  by (induction xs) auto

lemma findOne_SomeD: "findOne P xs = Some (i, x) \<Longrightarrow> i < length xs \<and> xs ! i = x \<and> P x"
  by (auto simp: findOne_def dest: findIndex_SomeD)

lemma findOne_None: "findOne P xs = None \<longleftrightarrow> (\<forall>x \<in> set xs. \<not> P x)"
  by (simp add: findOne_def findIndex_None)

lemma findIndex_hd_filter: "findIndex P xs = Some i \<Longrightarrow> hd (filter P xs) = xs ! i"
  by (induction xs arbitrary: i) (auto split: if_splits)

lemma findOne_hd_filter: "findOne P xs = Some (i, x) \<Longrightarrow> filter P xs \<noteq> [] \<and> hd (filter P xs) = x"
proof -
  assume "findOne P xs = Some (i, x)"
  then have i: "findIndex P xs = Some i" and x: "x = xs ! i"
    by (auto simp: findOne_def)
  from findIndex_SomeD [OF i] have "xs ! i \<in> set xs" "P (xs ! i)" by simp_all
  then have "filter P xs \<noteq> []" by (auto simp: filter_empty_conv)
  with findIndex_hd_filter [OF i] x show ?thesis by simp
qed

lemma filter_findOneAndDelete: "filter P (findOneAndDelete P xs) = tl (filter P xs)"
  by (induction xs) auto

lemma set_save_cart: "c' \<in> set (save_cart pos c cs) \<Longrightarrow> c' = c \<or> c' \<in> set cs"
  by (auto simp: save_cart_def split: option.splits dest: set_update_subset_insert [THEN subsetD])

lemma set_findOneAndDelete: "x \<in> set (findOneAndDelete P xs) \<Longrightarrow> x \<in> set xs"
  by (induction xs) (auto split: if_splits)

text \<open>A response that is not an error is \<open>Inr\<close> of its payload.\<close>

lemma response_InrI: "\<not> isl (fst r) \<Longrightarrow> r = (Inr (projr (fst r)), snd r)"
  by (cases r) (auto simp: isl_def)

subsection \<open>Evaluating double arithmetic\<close>

lemma halvings_unfold:
  "halvings n x = (if n = 0 then 0 else if 2 \<le> x then Suc (halvings (n - 1) (x / 2)) else 0)"
  by (cases n) simp_all

lemma doublings_unfold:
  "doublings n x = (if n = 0 then 0 else if x < 1 then Suc (doublings (n - 1) (x * 2)) else 0)"
  by (cases n) simp_all

lemma floor_rat_numeral:
  "\<lfloor>numeral a / numeral b :: rat\<rfloor> = numeral a div numeral b"
  using floor_divide_of_int_eq [of "numeral a" "numeral b", where ?'a = rat] by simp

lemmas double_eval = double_def ulp_def exponent_def round_half_even_def Let_def
  halvings_unfold doublings_unfold floor_rat_numeral

lemmas js_eval = js_add_def js_mul_def js_div_def Math_round_def double_eval

subsection \<open>The hooks establish the formula\<close>

lemma reduce_js_sum:
  "foldl (\<lambda>sum item. js_add sum (double (f item))) a xs = foldl js_add a (map double (map f xs))"
  by (induction xs arbitrary: a) simp_all

lemma cart_pre_save_ok: "cart_totals_ok (cart_pre_save c)"
  by (simp add: cart_totals_ok_def totals_formula_def cart_pre_save_unfold
        reduce_js_sum js_sum_def js_round2_def)

lemma order_pre_save_ok: "order_totals_ok (order_pre_save ord)"
  by (simp add: order_totals_ok_def totals_formula_def order_pre_save_unfold
        reduce_js_sum js_sum_def js_round2_def)

lemma order_pre_save_fields [simp]:
  "paymentStatus (order_pre_save ord) = paymentStatus ord"
  "orderStatus (order_pre_save ord) = orderStatus ord"
  "paidAt (order_pre_save ord) = paidAt ord"
  "refundedAt (order_pre_save ord) = refundedAt ord"
  "refundReason (order_pre_save ord) = refundReason ord"
  "order_items (order_pre_save ord) = order_items ord"
  "paymentIntentId (order_pre_save ord) = paymentIntentId ord"
  "order_user (order_pre_save ord) = order_user ord"
  by (simp_all add: order_pre_save_unfold)

subsection \<open>Every handler saves through the hooks\<close>

lemma addItem_saves: "saves_cart s (snd (addItem r s))"
  unfolding saves_cart_def addItem_def Let_def
  by (auto split: option.splits prod.splits)

lemma updateItem_saves: "saves_cart s (snd (updateItem r s))"
  unfolding saves_cart_def updateItem_def Let_def
  by (auto split: option.splits prod.splits)

lemma removeItem_saves: "saves_cart s (snd (removeItem r s))"
  unfolding saves_cart_def removeItem_def Let_def
  by (auto split: option.splits prod.splits)

lemma clearCart_saves: "saves_cart s (snd (clearCart r s))"
  unfolding saves_cart_def clearCart_def Let_def
  by (auto split: option.splits prod.splits)

lemma saves_cart_totals_kept: "saves_cart s s' \<Longrightarrow> totals_kept s s'"
  by (auto simp: saves_cart_def totals_kept_def cart_pre_save_ok dest!: set_save_cart)

lemma saves_order_totals_kept: "saves_order s s' \<Longrightarrow> totals_kept s s'"
  by (auto simp: saves_order_def totals_kept_def save_order_def order_pre_save_ok split: if_splits)

lemma mergeCart_kept: "totals_kept s (snd (mergeCart r s))"
  unfolding totals_kept_def mergeCart_def Let_def
  by (auto split: option.splits prod.splits simp: cart_pre_save_ok
           dest!: set_findOneAndDelete set_save_cart)

lemma checkout_kept: "totals_kept s (snd (checkout r s))"
  unfolding totals_kept_def checkout_def Let_def insert_order_def
  by (auto split: option.splits prod.splits if_splits simp: order_pre_save_ok
           dest!: set_findOneAndDelete)

lemma cancel_kept: "totals_kept s (snd (cancel r s))"
  unfolding totals_kept_def cancel_def Let_def save_order_def
  by (auto split: option.splits if_splits simp: order_pre_save_ok)

lemma adminSetStatus_saves: "saves_order s (snd (adminSetStatus r s))"
  unfolding saves_order_def adminSetStatus_def Let_def
  by (auto split: option.splits)

lemma createPaymentIntent_saves: "saves_order s (snd (createPaymentIntent r s))"
  unfolding saves_order_def createPaymentIntent_def Let_def
  by (auto split: option.splits)

lemma confirmPayment_saves: "saves_order s (snd (confirmPayment r s))"
  unfolding saves_order_def confirmPayment_def Let_def
  by (auto split: option.splits)

lemma refund_saves: "saves_order s (snd (refund r s))"
  unfolding saves_order_def refund_def Let_def
  by (auto split: option.splits)

lemma webhook_SignatureInvalid: "webhook r s = (Inl SignatureInvalid, s)"
  by (cases "wh_json r")
     (simp_all add: webhook_def express_json_def express_raw_def handleStripeWebhook_def)

lemma webhook_saves: "saves_order s (snd (webhook r s))"
  by (simp add: saves_order_def webhook_SignatureInvalid)

lemma handle_totals_kept: "totals_kept s (handle r s)"
  by (cases r)
     (simp_all add: saves_cart_totals_kept saves_order_totals_kept addItem_saves
        updateItem_saves removeItem_saves clearCart_saves mergeCart_kept checkout_kept
        cancel_kept adminSetStatus_saves createPaymentIntent_saves confirmPayment_saves
        refund_saves webhook_saves)

section \<open>The properties\<close>

subsection \<open>Totals\<close>

text \<open>
  Claim C2, as amended. Every request leaves each stored cart and each stored order
  either as a document that was stored before the request or with totals that satisfy
  the formula in JavaScript's double arithmetic: the subtotal is the line totals added
  from left to right, the tax is \<^verbatim>\<open>Math.round(subtotal * 0.10 * 100) / 100\<close>, the shipping
  is 0 from a subtotal of 100 on and 10 below, and the total is
  \<^verbatim>\<open>subtotal + tax + shipping\<close>, every operation rounded to the nearest double. Carts and
  orders satisfy the same formula.
\<close>

theorem totals_recomputed_on_every_save:
  "(\<forall>c \<in> set (carts (handle r s)). c \<in> set (carts s) \<or> cart_totals_ok c)
   \<and> (\<forall>oid ord. orders (handle r s) oid = Some ord \<longrightarrow>
         orders s oid = Some ord \<or> order_totals_ok ord)"
  using handle_totals_kept [of s r] by (simp add: totals_kept_def)

text \<open>The examples of the specification. One line of two items at 60 has the totals
  120, 12, 0 and 132; it is what adding two widgets to an empty database stores, and
  checking it out stores the order with the same totals. One line of two items at 20 has
  the totals 40, 4, 10 and 54.\<close>

lemma ex_widget_totals:
  "cart_totals (ex_cart [ex_widget_line]) = \<lparr>subtotal = 120, tax = 12, shipping = 0, total = 132\<rparr>"
  by (simp add: ex_cart_def cart_pre_save_unfold ex_widget_line_def js_eval)

lemma ex_ebook_totals:
  "cart_totals (ex_cart [ex_ebook_line]) = \<lparr>subtotal = 40, tax = 4, shipping = 10, total = 54\<rparr>"
  by (simp add: ex_cart_def cart_pre_save_unfold ex_ebook_line_def js_eval)

lemma ex_add_widget:
  "carts (handle (AddItem (ex_add ''p1'' 2)) (ex_db [])) = [ex_cart [ex_widget_line]]"
  by (simp add: addItem_def ex_add_def ex_db_def ex_widget_def ex_cart_def ex_widget_line_def
        cart_query_of_def or_null_def truthy_def findOne_def itemPrice_def save_cart_def Let_def)

lemma ex_widget_order_totals:
  "order_items ord = order_items (ex_order st pst) \<Longrightarrow>
   order_totals (order_pre_save ord) = \<lparr>subtotal = 120, tax = 12, shipping = 0, total = 132\<rparr>"
  by (simp add: ex_order_def order_pre_save_unfold js_eval)

lemma order_pre_save_totals:
  "order_pre_save ord = ord\<lparr>order_totals := order_totals (order_pre_save ord)\<rparr>"
  by (simp add: order_pre_save_unfold)

lemma ex_checkout_widget:
  "orders (handle (Checkout ex_checkout) (ex_db [ex_cart [ex_widget_line]])) ''o1''
     = Some (ex_order Pending PaymentPending\<lparr>paymentIntentId := None\<rparr>)"
proof -
  have "orders (handle (Checkout ex_checkout) (ex_db [ex_cart [ex_widget_line]])) ''o1''
          = Some (order_pre_save (ex_order Pending PaymentPending\<lparr>paymentIntentId := None\<rparr>))"
    by (simp add: checkout_def ex_checkout_def ex_db_def ex_widget_def ex_ebook_def ex_cart_def
          ex_widget_line_def ex_order_def ex_address_def findOne_def cart_pre_save_unfold Let_def
          insert_order_def order_pre_save_unfold generate_order_number_def
          trim_address_def trim_def is_space_def)
  moreover have "order_totals (order_pre_save (ex_order Pending PaymentPending\<lparr>paymentIntentId := None\<rparr>))
          = \<lparr>subtotal = 120, tax = 12, shipping = 0, total = 132\<rparr>"
    by (rule ex_widget_order_totals [of _ Pending PaymentPending]) simp
  then have "order_pre_save (ex_order Pending PaymentPending\<lparr>paymentIntentId := None\<rparr>)
          = ex_order Pending PaymentPending\<lparr>paymentIntentId := None\<rparr>"
    by (subst order_pre_save_totals) (simp add: ex_order_def)
  ultimately show ?thesis by simp
qed

theorem totals_recomputed_on_every_save_witness:
  "cart_totals (ex_cart [ex_widget_line]) = \<lparr>subtotal = 120, tax = 12, shipping = 0, total = 132\<rparr>
   \<and> cart_totals (ex_cart [ex_ebook_line]) = \<lparr>subtotal = 40, tax = 4, shipping = 10, total = 54\<rparr>
   \<and> cart_totals_ok (ex_cart [ex_widget_line])
   \<and> order_totals (ex_order Pending PaymentPending\<lparr>paymentIntentId := None\<rparr>)
       = \<lparr>subtotal = 120, tax = 12, shipping = 0, total = 132\<rparr>
   \<and> order_totals_ok (ex_order Pending PaymentPending\<lparr>paymentIntentId := None\<rparr>)"
proof -
  note inst1 = totals_recomputed_on_every_save [of "AddItem (ex_add ''p1'' 2)" "ex_db []"]
  note inst2 = totals_recomputed_on_every_save
                 [of "Checkout ex_checkout" "ex_db [ex_cart [ex_widget_line]]"]
  from inst1 [unfolded ex_add_widget] have "cart_totals_ok (ex_cart [ex_widget_line])"
    by (simp add: ex_db_def)
  moreover from inst2 [THEN conjunct2, rule_format, OF ex_checkout_widget]
  have "order_totals_ok (ex_order Pending PaymentPending\<lparr>paymentIntentId := None\<rparr>)"
    by (simp add: ex_db_def)
  moreover have "order_totals (ex_order Pending PaymentPending\<lparr>paymentIntentId := None\<rparr>)
       = \<lparr>subtotal = 120, tax = 12, shipping = 0, total = 132\<rparr>"
    by (simp add: ex_order_def)
  ultimately show ?thesis using ex_widget_totals ex_ebook_totals by simp
qed

text \<open>The claim as stated fails: the stored tax is not always the tenth of the subtotal
  rounded to two decimals. Adding one gadget, priced 10.35, stores a cart with the
  subtotal 10.35 and the tax 1.03, where a tenth of 10.35 rounded to two decimals is
  1.04: the product \<^verbatim>\<open>10.35 * 0.1 * 100\<close> is 103.49999999999999 in doubles. Nor is the
  stored tax always the exact rounding of a tenth of the stored double: adding one
  sample stores the subtotal 0.24999999999999997 and the tax 0.03, where a tenth of that
  subtotal lies below 0.025 and rounds to 0.02.\<close>

lemma ex_add_gadget_ok: "\<not> isl (fst (addItem (ex_add ''p3'' 1) ex_cents_db))"
  by (simp add: addItem_def ex_add_def ex_cents_db_def ex_gadget_def cart_query_of_def
        or_null_def truthy_def Let_def)

lemma ex_gadget_cart:
  "projr (fst (addItem (ex_add ''p3'' 1) ex_cents_db))
     = cart_pre_save \<lparr>cart_sessionId = None, cart_user = Some ''u1'',
         cart_items = [\<lparr>ci_product = ''p3'', ci_quantity = 1, ci_price = 207 / 20,
                         ci_total = 207 / 20\<rparr>],
         cart_totals = \<lparr>subtotal = 0, tax = 0, shipping = 0, total = 0\<rparr>\<rparr>"
  by (simp add: addItem_def ex_add_def ex_cents_db_def ex_gadget_def cart_query_of_def
        or_null_def truthy_def findOne_def itemPrice_def Let_def)

lemma ex_sample_cart:
  "projr (fst (addItem (ex_add ''p4'' 1) ex_cents_db))
     = cart_pre_save \<lparr>cart_sessionId = None, cart_user = Some ''u1'',
         cart_items = [\<lparr>ci_product = ''p4'', ci_quantity = 1,
                         ci_price = 9007199254740991 / 36028797018963968,
                         ci_total = 9007199254740991 / 36028797018963968\<rparr>],
         cart_totals = \<lparr>subtotal = 0, tax = 0, shipping = 0, total = 0\<rparr>\<rparr>"
  by (simp add: addItem_def ex_add_def ex_cents_db_def ex_sample_def cart_query_of_def
        or_null_def truthy_def findOne_def itemPrice_def Let_def)

lemma double_cents:
  "double (207 / 20) = 5826532017910579 / 562949953421312"
  "double (103 / 100) = 4638707616191611 / 4503599627370496"
  "double (26 / 25) = 1170935903116329 / 1125899906842624"
  "double (3 / 100) = 1080863910568919 / 36028797018963968"
  "double (1 / 50) = 5764607523034235 / 288230376151711744"
  "double (9007199254740991 / 36028797018963968) = 9007199254740991 / 36028797018963968"
  by (simp_all add: double_eval)

lemma ex_gadget_totals:
  "subtotal (cart_totals (projr (fst (addItem (ex_add ''p3'' 1) ex_cents_db)))) = double (207 / 20)"
  "tax (cart_totals (projr (fst (addItem (ex_add ''p3'' 1) ex_cents_db)))) = double (103 / 100)"
  unfolding ex_gadget_cart double_cents
  by (simp_all add: cart_pre_save_unfold js_eval)

lemma ex_sample_totals:
  "subtotal (cart_totals (projr (fst (addItem (ex_add ''p4'' 1) ex_cents_db))))
     = 9007199254740991 / 36028797018963968"
  "tax (cart_totals (projr (fst (addItem (ex_add ''p4'' 1) ex_cents_db)))) = double (3 / 100)"
  unfolding ex_sample_cart double_cents
  by (simp_all add: cart_pre_save_unfold js_eval)

theorem totals_decimal_rounding_counterexample:
  "\<not> isl (fst (addItem (ex_add ''p3'' 1) ex_cents_db))
   \<and> subtotal (cart_totals (projr (fst (addItem (ex_add ''p3'' 1) ex_cents_db)))) = double (207 / 20)
   \<and> tax (cart_totals (projr (fst (addItem (ex_add ''p3'' 1) ex_cents_db)))) = double (103 / 100)
   \<and> decimal_tax (207 / 20) = 26 / 25
   \<and> double (103 / 100) \<noteq> double (26 / 25)
   \<and> subtotal (cart_totals (projr (fst (addItem (ex_add ''p4'' 1) ex_cents_db))))
       = 9007199254740991 / 36028797018963968
   \<and> tax (cart_totals (projr (fst (addItem (ex_add ''p4'' 1) ex_cents_db)))) = double (3 / 100)
   \<and> decimal_tax (9007199254740991 / 36028797018963968) = 1 / 50
   \<and> double (3 / 100) \<noteq> double (1 / 50)"
proof -
  have "decimal_tax (207 / 20) = 26 / 25"
    and "decimal_tax (9007199254740991 / 36028797018963968) = 1 / 50"
    by (simp_all add: decimal_tax_def round2_def round_def floor_rat_numeral)
  moreover have "double (103 / 100) \<noteq> double (26 / 25)" and "double (3 / 100) \<noteq> double (1 / 50)"
    by (simp_all add: double_cents)
  ultimately show ?thesis
    using ex_add_gadget_ok ex_gadget_totals ex_sample_totals by simp
qed

subsection \<open>One cart per user, one line per product\<close>

text \<open>No request breaks the well-formedness of the carts: a cart is created only for an
  owner that has none, a line is appended only for a product that has none, and every
  other write keeps the owner of the cart and the products of the lines.\<close>

lemma length_filter_update_same:
  "i < length xs \<Longrightarrow> P x = P (xs ! i) \<Longrightarrow>
     length (filter P (xs[i := x])) = length (filter P xs)"
proof (induction xs arbitrary: i)
  case Nil
  then show ?case by simp
next
  case (Cons a xs)
  then show ?case by (cases i) auto
qed

lemma length_filter_findOneAndDelete:
  "length (filter Q (findOneAndDelete P xs)) \<le> length (filter Q xs)"
  by (induction xs) auto

lemma cart_pre_save_user [simp]: "cart_user (cart_pre_save c) = cart_user c"
  and cart_pre_save_items [simp]: "cart_items (cart_pre_save c) = cart_items c"
  and cart_pre_save_session [simp]: "cart_sessionId (cart_pre_save c) = cart_sessionId c"
  by (simp_all add: cart_pre_save_unfold)

text \<open>Saving a cart in place of the one found, with the same owner.\<close>

lemma cart_list_wf_replace:
  assumes wf: "cart_list_wf cs"
      and found: "findOne P cs = Some (pos, c)"
      and user: "cart_user c' = cart_user c"
      and d: "products_distinct c'"
  shows "cart_list_wf (save_cart (Some pos) c' cs)"
proof -
  from findOne_SomeD [OF found] have pos: "pos < length cs" and c: "cs ! pos = c"
    by simp_all
  have "length (filter (matches (ByUser u)) (cs[pos := c']))
          = length (filter (matches (ByUser u)) cs)" for u
    using pos c user by (intro length_filter_update_same) simp_all
  moreover have "\<forall>x \<in> set (cs[pos := c']). products_distinct x"
    using wf d by (auto simp: cart_list_wf_def dest!: set_update_subset_insert [THEN subsetD])
  ultimately show ?thesis
    using wf by (simp add: cart_list_wf_def save_cart_def)
qed

text \<open>Inserting a cart for an owner who has none.\<close>

lemma cart_list_wf_insert:
  assumes wf: "cart_list_wf cs"
      and none: "\<And>u. cart_user c' = Some u \<Longrightarrow> findOne (matches (ByUser u)) cs = None"
      and d: "products_distinct c'"
  shows "cart_list_wf (save_cart None c' cs)"
proof -
  have "length (filter (matches (ByUser u)) (cs @ [c'])) \<le> 1" for u
  proof (cases "cart_user c' = Some u")
    case True
    from none [OF True] have "filter (matches (ByUser u)) cs = []"
      by (simp add: findOne_None filter_empty_conv)
    then show ?thesis by simp
  next
    case False
    with wf show ?thesis by (simp add: cart_list_wf_def)
  qed
  with wf d show ?thesis
    by (auto simp: cart_list_wf_def save_cart_def)
qed

lemma cart_list_wf_delete:
  assumes "cart_list_wf cs"
  shows "cart_list_wf (findOneAndDelete P cs)"
proof -
  have "length (filter (matches (ByUser u)) (findOneAndDelete P cs)) \<le> 1" for u
    using assms length_filter_findOneAndDelete [of "matches (ByUser u)" P cs]
    by (simp add: cart_list_wf_def) (meson le_trans)
  with assms show ?thesis
    by (auto simp: cart_list_wf_def dest: set_findOneAndDelete)
qed

lemma map_product_update_line:
  "i < length items \<Longrightarrow> ci_product line = ci_product (items ! i) \<Longrightarrow>
     map ci_product (items[i := line]) = map ci_product items"
  by (simp add: map_update list_update_same_conv)

lemma merge_items_distinct:
  "distinct (map ci_product userItems) \<Longrightarrow>
     distinct (map ci_product (merge_items sessionItems userItems))"
proof (induction sessionItems arbitrary: userItems)
  case Nil
  then show ?case by simp
next
  case (Cons sessionItem rest)
  show ?case
  proof (cases "findIndex (\<lambda>item. ci_product item = ci_product sessionItem) userItems")
    case None
    then have "ci_product sessionItem \<notin> ci_product ` set userItems"
      by (auto simp: findIndex_None)
    with Cons.prems have "distinct (map ci_product (userItems @ [sessionItem]))"
      by simp
    from Cons.IH [OF this] None show ?thesis by simp
  next
    case (Some i)
    from findIndex_SomeD [OF Some] have "i < length userItems" by simp
    then have "map ci_product
                 (userItems[i := (userItems ! i)\<lparr>ci_quantity := q, ci_total := t\<rparr>])
               = map ci_product userItems" for q t
      by (intro map_product_update_line) simp_all
    with Cons.prems have "distinct (map ci_product
                 (userItems[i := (userItems ! i)\<lparr>ci_quantity := q, ci_total := t\<rparr>]))" for q t
      by simp
    from Cons.IH [OF this] Some show ?thesis by (simp add: Let_def)
  qed
qed

lemma cart_query_of_user:
  "cart_query_of user sid = Some query \<Longrightarrow> truthy user \<Longrightarrow> query = ByUser (the user)"
  by (auto simp: cart_query_of_def truthy_def split: option.splits if_splits)

lemma products_distinct_push:
  "products_distinct c \<Longrightarrow> findIndex (\<lambda>item. ci_product item = pid) (cart_items c) = None \<Longrightarrow>
     ci_product line = pid \<Longrightarrow>
     products_distinct (cart_pre_save (c\<lparr>cart_items := cart_items c @ [line]\<rparr>))"
  by (auto simp: products_distinct_def findIndex_None)

lemma products_distinct_update:
  "products_distinct c \<Longrightarrow> findIndex P (cart_items c) = Some i \<Longrightarrow>
     ci_product line = ci_product (cart_items c ! i) \<Longrightarrow>
     products_distinct (cart_pre_save (c\<lparr>cart_items := (cart_items c)[i := line]\<rparr>))"
  by (auto simp: products_distinct_def map_product_update_line dest!: findIndex_SomeD)

lemma cart_list_wf_found:
  "cart_list_wf cs \<Longrightarrow> findOne P cs = Some (pos, c) \<Longrightarrow> products_distinct c"
  by (auto simp: cart_list_wf_def dest!: findOne_SomeD)

lemma products_distinct_filter:
  "products_distinct c \<Longrightarrow>
     products_distinct (cart_pre_save (c\<lparr>cart_items := filter P (cart_items c)\<rparr>))"
  by (simp add: products_distinct_def distinct_map_filter)

lemma addItem_carts_wf: "carts_wf s \<Longrightarrow> carts_wf (snd (addItem r s))"
  unfolding addItem_def Let_def carts_wf_def
  by (auto split: option.splits prod.splits
      intro!: cart_list_wf_insert cart_list_wf_replace [where P = "matches q" for q]
              products_distinct_push products_distinct_update
      dest: cart_query_of_user cart_list_wf_found
      simp: products_distinct_def)

lemma updateItem_carts_wf: "carts_wf s \<Longrightarrow> carts_wf (snd (updateItem r s))"
  unfolding updateItem_def Let_def carts_wf_def
  by (auto split: option.splits prod.splits
      intro!: cart_list_wf_replace [where P = "matches q" for q] products_distinct_update
      dest: cart_list_wf_found)

lemma removeItem_carts_wf: "carts_wf s \<Longrightarrow> carts_wf (snd (removeItem r s))"
  unfolding removeItem_def Let_def carts_wf_def
  by (auto split: option.splits prod.splits
      intro!: cart_list_wf_replace [where P = "matches q" for q] products_distinct_filter
      dest: cart_list_wf_found)

lemma clearCart_carts_wf: "carts_wf s \<Longrightarrow> carts_wf (snd (clearCart r s))"
  unfolding clearCart_def Let_def carts_wf_def
  by (auto split: option.splits prod.splits
      intro!: cart_list_wf_replace [where P = "matches q" for q]
      simp: products_distinct_def)

lemma mergeCart_carts_wf: "carts_wf s \<Longrightarrow> carts_wf (snd (mergeCart r s))"
  unfolding mergeCart_def Let_def carts_wf_def
  by (auto split: option.splits prod.splits
      intro!: cart_list_wf_delete cart_list_wf_insert cart_list_wf_replace [where P = "matches q" for q]
      dest: cart_list_wf_found
      simp: products_distinct_def merge_items_distinct)

lemma checkout_carts_wf: "carts_wf s \<Longrightarrow> carts_wf (snd (checkout r s))"
  unfolding checkout_def Let_def carts_wf_def insert_order_def
  by (auto split: option.splits prod.splits intro!: cart_list_wf_delete)

lemma carts_wf_same_carts: "carts s' = carts s \<Longrightarrow> carts_wf s \<Longrightarrow> carts_wf s'"
  by (simp add: carts_wf_def)

lemma saves_order_carts: "saves_order s s' \<Longrightarrow> carts s' = carts s"
  by (auto simp: saves_order_def save_order_def)

lemma cancel_carts: "carts (snd (cancel r s)) = carts s"
  by (auto simp: cancel_def Let_def save_order_def split: option.splits)

lemma handle_carts_wf: "carts_wf s \<Longrightarrow> carts_wf (handle r s)"
proof (cases r)
  case (Cancel x)
  assume "carts_wf s"
  with Cancel show ?thesis by (simp add: carts_wf_same_carts [OF cancel_carts])
qed (simp_all add: addItem_carts_wf updateItem_carts_wf removeItem_carts_wf clearCart_carts_wf
       mergeCart_carts_wf checkout_carts_wf
       carts_wf_same_carts [OF saves_order_carts [OF adminSetStatus_saves]]
       carts_wf_same_carts [OF saves_order_carts [OF createPaymentIntent_saves]]
       carts_wf_same_carts [OF saves_order_carts [OF confirmPayment_saves]]
       carts_wf_same_carts [OF saves_order_carts [OF refund_saves]]
       carts_wf_same_carts [OF saves_order_carts [OF webhook_saves]])

text \<open>So the carts are well-formed in every database that a sequence of requests
  reaches from one without carts; and in a well-formed database the cart that
  \<^verbatim>\<open>findOne\<close> returns for a user is the user's only cart and has one line per product.\<close>

lemma carts_wf_no_carts: "carts s = [] \<Longrightarrow> carts_wf s"
  by (simp add: carts_wf_def cart_list_wf_def)

lemma carts_wf_requests: "carts_wf s \<Longrightarrow> carts_wf (foldl (\<lambda>s' r. handle r s') s rs)"
  by (induction rs arbitrary: s) (simp_all add: handle_carts_wf)

lemma carts_wf_found_cart:
  assumes "carts_wf s" and "findOne P (carts s) = Some (pos, c)"
  shows "distinct (map ci_product (cart_items c)) \<and> length (user_carts u s) \<le> 1"
  using assms cart_list_wf_found [of "carts s" P pos c]
  by (simp add: carts_wf_def cart_list_wf_def user_carts_def products_distinct_def)

subsection \<open>Cart lines\<close>

text \<open>
  Claim C6. For an add request that names a product and carries an identity, and whose
  product exists: when the product tracks quantity and the requested quantity (1 when
  none is given) exceeds the stock, the request fails with \<open>InsufficientInventory\<close> and
  the database is unchanged; when the product does not track quantity, the request is
  never refused for insufficient inventory, whatever the requested quantity, and with a
  quantity of at least 1 it succeeds.
\<close>

theorem addItem_inventory_check:
  assumes "add_productId req = Some productId" and "productId \<noteq> []"
      and "cart_query_of (add_user req) (or_null (add_sessionId req)) \<noteq> None"
      and "products s productId = Some p"
  shows "(inventory_trackQuantity p
            \<and> (case add_quantity req of None \<Rightarrow> 1 | Some q \<Rightarrow> q) > inventory_quantity p
          \<longrightarrow> addItem req s = (Inl InsufficientInventory, s))
       \<and> (\<not> inventory_trackQuantity p \<longrightarrow>
            fst (addItem req s) \<noteq> Inl InsufficientInventory
            \<and> ((case add_quantity req of None \<Rightarrow> 1 | Some q \<Rightarrow> q) \<ge> 1
                 \<longrightarrow> \<not> isl (fst (addItem req s))))"
  using assms
  by (auto simp: addItem_def Let_def split: option.splits)

text \<open>Six widgets are refused with five in stock; a thousand e-books are accepted with
  a stock of zero that is not tracked.\<close>

theorem addItem_inventory_check_witness:
  "addItem (ex_add ''p1'' 6) (ex_db []) = (Inl InsufficientInventory, ex_db [])
   \<and> fst (addItem (ex_add ''p2'' 1000) (ex_db [])) \<noteq> Inl InsufficientInventory
   \<and> \<not> isl (fst (addItem (ex_add ''p2'' 1000) (ex_db [])))"
proof -
  have q: "cart_query_of (add_user (ex_add pid n)) (or_null (add_sessionId (ex_add pid n))) \<noteq> None"
    for pid n
    by (simp add: ex_add_def cart_query_of_def)
  have w: "products (ex_db []) ''p1'' = Some ex_widget"
    and e: "products (ex_db []) ''p2'' = Some ex_ebook"
    by (simp_all add: ex_db_def)
  from addItem_inventory_check [of "ex_add ''p1'' 6" "''p1''" "ex_db []" ex_widget, OF _ _ q w]
  have "addItem (ex_add ''p1'' 6) (ex_db []) = (Inl InsufficientInventory, ex_db [])"
    by (simp add: ex_add_def ex_widget_def)
  moreover
  from addItem_inventory_check [of "ex_add ''p2'' 1000" "''p2''" "ex_db []" ex_ebook, OF _ _ q e]
  have "fst (addItem (ex_add ''p2'' 1000) (ex_db [])) \<noteq> Inl InsufficientInventory
        \<and> \<not> isl (fst (addItem (ex_add ''p2'' 1000) (ex_db [])))"
    by (simp add: ex_add_def ex_ebook_def)
  ultimately show ?thesis by simp
qed

text \<open>
  Claim C5. Adding a product that the cart already holds should sum the quantities into
  the existing line and recompute its total from the unit price stored in the line. The
  handler sums the quantities and adds no line, but it computes the total from the
  catalog price of the product at the time of the request, while the unit price stored
  in the line stays as it was: after adding one widget at the price 60 and, once the
  catalog price has changed to 80, one more, the cart has the single line of quantity 2
  and unit price 60 with the total 160, not 120.
\<close>

theorem addItem_existing_line_uses_catalog_price:
  "cart_items (projr (fst (addItem (ex_add ''p1'' 1)
                  (ex_reprice 80 (snd (addItem (ex_add ''p1'' 1) (ex_db [])))))))
     = [\<lparr>ci_product = ''p1'', ci_quantity = 2, ci_price = 60, ci_total = 160\<rparr>]"
  by (simp add: addItem_def ex_add_def ex_db_def ex_widget_def ex_reprice_def
        cart_query_of_def or_null_def truthy_def findOne_def itemPrice_def save_cart_def
        cart_pre_save_unfold Let_def)

text \<open>In general, for a product that the found cart already holds.\<close>

lemma addItem_existing_line:
  assumes "add_productId req = Some productId" and "productId \<noteq> []"
      and "cart_query_of (add_user req) (or_null (add_sessionId req)) = Some query"
      and "products s productId = Some p"
      and "findOne (matches query) (carts s) = Some (pos, cart_doc)"
      and "findIndex (\<lambda>item. ci_product item = productId) (cart_items cart_doc) = Some i"
      and "addItem req s = (Inr saved, s')"
  shows "length (cart_items saved) = length (cart_items cart_doc)
       \<and> ci_quantity (cart_items saved ! i)
           = ci_quantity (cart_items cart_doc ! i)
             + (case add_quantity req of None \<Rightarrow> 1 | Some q \<Rightarrow> q)
       \<and> ci_price (cart_items saved ! i) = ci_price (cart_items cart_doc ! i)
       \<and> ci_total (cart_items saved ! i) = ci_quantity (cart_items saved ! i) * itemPrice p"
  using assms findIndex_SomeD [OF assms(6)]
  by (auto simp: addItem_def Let_def cart_pre_save_unfold split: if_splits)

text \<open>
  Claim C10. When an update request succeeds, the cart that was found is saved at its
  place with the same products and the same unit prices, line by line; the line of the
  requested product has the requested quantity and the total of that quantity times the
  unit price the line already had; the other lines are unchanged.
\<close>

theorem updateItem_keeps_price_snapshot:
  assumes "updateItem req s = (Inr saved, s')"
  shows "\<exists>productId quantity query pos cart_doc i.
           upd_productId req = Some productId \<and> upd_quantity req = Some quantity
           \<and> cart_query_of (upd_user req) (or_null (upd_sessionId req)) = Some query
           \<and> findOne (matches query) (carts s) = Some (pos, cart_doc)
           \<and> findIndex (\<lambda>item. ci_product item = productId) (cart_items cart_doc) = Some i
           \<and> carts s' = (carts s)[pos := saved]
           \<and> map ci_price (cart_items saved) = map ci_price (cart_items cart_doc)
           \<and> map ci_product (cart_items saved) = map ci_product (cart_items cart_doc)
           \<and> ci_quantity (cart_items saved ! i) = quantity
           \<and> ci_total (cart_items saved ! i) = quantity * ci_price (cart_items cart_doc ! i)
           \<and> (\<forall>j. j \<noteq> i \<longrightarrow> cart_items saved ! j = cart_items cart_doc ! j)"
  using assms
  unfolding updateItem_def Let_def
  by (auto split: option.splits if_splits prod.splits
           simp: cart_pre_save_unfold save_cart_def map_update list_update_same_conv
           dest!: findIndex_SomeD)

text \<open>A line added at the price 50 is updated to the quantity 3 while the catalog price
  is 60: the unit price stays 50 and the total becomes 150; the other line of the cart is
  as it was.\<close>

lemma ex_update_two_ok:
  "\<not> isl (fst (updateItem ex_update (ex_db [ex_cart [ex_old_line, ex_ebook_line]])))"
  by (simp add: updateItem_def ex_update_def ex_db_def ex_cart_def ex_old_line_def ex_ebook_line_def
        ex_widget_def cart_query_of_def or_null_def truthy_def findOne_def Let_def)

theorem updateItem_keeps_price_snapshot_witness:
  "map ci_price (cart_items (projr (fst (updateItem ex_update
                    (ex_db [ex_cart [ex_old_line, ex_ebook_line]])))))
     = [50, 20]
   \<and> ci_quantity (cart_items (projr (fst (updateItem ex_update
                    (ex_db [ex_cart [ex_old_line, ex_ebook_line]])))) ! 0) = 3
   \<and> ci_total (cart_items (projr (fst (updateItem ex_update
                    (ex_db [ex_cart [ex_old_line, ex_ebook_line]])))) ! 0) = 150
   \<and> cart_items (projr (fst (updateItem ex_update
                    (ex_db [ex_cart [ex_old_line, ex_ebook_line]])))) ! 1 = ex_ebook_line
   \<and> price_regular (the (products (ex_db [ex_cart [ex_old_line, ex_ebook_line]]) ''p1'')) = 60"
proof -
  let ?db = "ex_db [ex_cart [ex_old_line, ex_ebook_line]]"
  let ?saved = "projr (fst (updateItem ex_update ?db))"
  from updateItem_keeps_price_snapshot [OF response_InrI [OF ex_update_two_ok]]
  obtain productId quantity query pos cart_doc i where
    "upd_productId ex_update = Some productId" "upd_quantity ex_update = Some quantity"
    "cart_query_of (upd_user ex_update) (or_null (upd_sessionId ex_update)) = Some query"
    "findOne (matches query) (carts ?db) = Some (pos, cart_doc)"
    "findIndex (\<lambda>item. ci_product item = productId) (cart_items cart_doc) = Some i"
    and price: "map ci_price (cart_items ?saved) = map ci_price (cart_items cart_doc)"
    and quantity: "ci_quantity (cart_items ?saved ! i) = quantity"
    and total: "ci_total (cart_items ?saved ! i) = quantity * ci_price (cart_items cart_doc ! i)"
    and others: "\<forall>j. j \<noteq> i \<longrightarrow> cart_items ?saved ! j = cart_items cart_doc ! j"
    by blast
  then have found: "quantity = 3" "cart_doc = ex_cart [ex_old_line, ex_ebook_line]" "i = 0"
    by (auto simp: ex_update_def cart_query_of_def or_null_def truthy_def findOne_def ex_db_def
          ex_cart_def ex_old_line_def ex_ebook_line_def)
  from others found have "cart_items ?saved ! 1 = ex_ebook_line"
    by (simp add: ex_cart_def)
  with price quantity total found show ?thesis
    by (simp add: ex_cart_def ex_old_line_def ex_ebook_line_def ex_db_def ex_widget_def)
qed

subsection \<open>Checkout\<close>

text \<open>The loops over the lines, product by product.\<close>

lemma adjust_zero [simp]: "adjust 0 0 p = p"
  by (simp add: adjust_def)

lemma adjust_adjust: "adjust a b (adjust c d p) = adjust (a + c) (b + d) p"
  by (simp add: adjust_def algebra_simps)

lemma update_inventory_pointwise:
  "update_inventory items P pid =
     map_option (adjust (ordered_quantity items pid) (ordered_total items pid)) (P pid)"
proof (induction items arbitrary: P)
  case Nil
  show ?case by (simp add: ordered_quantity_def ordered_total_def option.map_ident)
next
  case (Cons item rest)
  let ?step = "(case P (ci_product item) of
          None \<Rightarrow> P
        | Some product \<Rightarrow>
            if inventory_trackQuantity product
            then P(ci_product item \<mapsto>
                   product\<lparr>inventory_quantity := inventory_quantity product - ci_quantity item,
                           analytics_purchases := analytics_purchases product + ci_quantity item,
                           analytics_revenue := analytics_revenue product + ci_total item\<rparr>)
            else P)"
  have step: "?step pid = (if pid = ci_product item
                 then map_option (adjust (ci_quantity item) (ci_total item)) (P pid)
                 else P pid)"
    by (auto simp: adjust_def split: option.splits)
  have "update_inventory (item # rest) P pid = update_inventory rest ?step pid"
    by simp
  also have "\<dots> = map_option (adjust (ordered_quantity rest pid) (ordered_total rest pid)) (?step pid)"
    by (rule Cons.IH)
  also have "\<dots> = map_option (adjust (ordered_quantity (item # rest) pid)
                                   (ordered_total (item # rest) pid)) (P pid)"
  proof (cases "pid = ci_product item")
    case True
    then show ?thesis
      unfolding step
      by (cases "P (ci_product item)")
         (simp_all add: ordered_quantity_def ordered_total_def adjust_adjust add.commute)
  next
    case False
    then show ?thesis
      unfolding step by (simp add: ordered_quantity_def ordered_total_def)
  qed
  finally show ?case .
qed


lemma ordered_single_line:
  "distinct (map ci_product items) \<Longrightarrow> item \<in> set items \<Longrightarrow>
     ordered_quantity items (ci_product item) = ci_quantity item
     \<and> ordered_total items (ci_product item) = ci_total item"
proof (induction items)
  case Nil
  then show ?case by simp
next
  case (Cons a items)
  show ?case
  proof (cases "item = a")
    case True
    from Cons.prems(1) have "filter (\<lambda>i. ci_product i = ci_product a) items = []"
      by (auto simp: filter_empty_conv image_iff)
    with True show ?thesis by (simp add: ordered_quantity_def ordered_total_def)
  next
    case False
    with Cons.prems have mem: "item \<in> set items" and "ci_product a \<noteq> ci_product item"
      by auto
    with Cons.IH [OF _ mem] Cons.prems(1) show ?thesis
      by (simp add: ordered_quantity_def ordered_total_def)
  qed
qed

lemma verify_items_NoneD:
  "verify_items P items = None \<Longrightarrow> item \<in> set items \<Longrightarrow>
     \<exists>p. P (ci_product item) = Some p \<and> isActive p
         \<and> \<not> (inventory_trackQuantity p \<and> inventory_quantity p < ci_quantity item)"
  by (induction items) (auto split: option.splits if_splits)

lemma build_order_items_lines:
  "verify_items P items = None \<Longrightarrow>
     map line_of_order_item (build_order_items P items) = map line_of_cart_item items"
  by (induction items)
     (auto simp: line_of_order_item_def line_of_cart_item_def split: option.splits if_splits)


text \<open>What a successful checkout has done.\<close>

lemma checkout_InrD:
  assumes "checkout req s = (Inr ord, s')"
  shows "\<exists>pos cart_doc.
           findOne (matches (ByUser (co_user req))) (carts s) = Some (pos, cart_doc)
           \<and> cart_items cart_doc \<noteq> []
           \<and> verify_items (products s) (cart_items cart_doc) = None
           \<and> order_items ord = build_order_items (products s) (cart_items cart_doc)
           \<and> orderStatus ord = Pending \<and> paymentStatus ord = PaymentPending
           \<and> order_user ord = co_user req
           \<and> products s' = update_inventory (cart_items cart_doc) (products s)
           \<and> carts s' = findOneAndDelete (matches (ByUser (co_user req))) (carts s)
           \<and> orders s' = (orders s)(co_newId req \<mapsto> ord)"
  using assms
  unfolding checkout_def Let_def insert_order_def
  by (auto split: option.splits if_splits prod.splits
           simp: order_pre_save_unfold generate_order_number_def)

text \<open>
  Claim C1, as amended. When a checkout succeeds, every product is adjusted by the
  lines of the checked-out cart that reference it, provided it tracks quantity: its stock
  goes down by their quantity, its purchases go up by their quantity and its revenue goes
  up by their line totals; a product that does not track quantity is left unchanged.
  When no product has two lines, each line's product that tracks quantity has its stock
  decreased by exactly that line's quantity and its purchases and revenue increased by
  that line's quantity and line total. The cart that was checked out is deleted, so a
  user with one cart has none afterwards.
\<close>

theorem checkout_adjusts_tracked_inventory:
  assumes "checkout req s = (Inr ord, s')"
      and "findOne (matches (ByUser (co_user req))) (carts s) = Some (pos, cart_doc)"
  shows "(\<forall>pid. products s' pid =
            map_option (adjust (ordered_quantity (cart_items cart_doc) pid)
                               (ordered_total (cart_items cart_doc) pid)) (products s pid))
       \<and> (distinct (map ci_product (cart_items cart_doc)) \<longrightarrow>
            (\<forall>item \<in> set (cart_items cart_doc).
               \<exists>p p'. products s (ci_product item) = Some p
                    \<and> products s' (ci_product item) = Some p'
                    \<and> (if inventory_trackQuantity p
                        then p' = p\<lparr>inventory_quantity := inventory_quantity p - ci_quantity item,
                                    analytics_purchases := analytics_purchases p + ci_quantity item,
                                    analytics_revenue := analytics_revenue p + ci_total item\<rparr>
                        else p' = p)))
       \<and> user_carts (co_user req) s' = tl (user_carts (co_user req) s)
       \<and> (length (user_carts (co_user req) s) \<le> 1 \<longrightarrow>
            findOne (matches (ByUser (co_user req))) (carts s') = None)"
proof -
  from checkout_InrD [OF assms(1)] assms(2)
  have verified: "verify_items (products s) (cart_items cart_doc) = None"
    and prods: "products s' = update_inventory (cart_items cart_doc) (products s)"
    and crts: "carts s' = findOneAndDelete (matches (ByUser (co_user req))) (carts s)"
    by auto
  have pointwise: "products s' pid =
            map_option (adjust (ordered_quantity (cart_items cart_doc) pid)
                               (ordered_total (cart_items cart_doc) pid)) (products s pid)" for pid
    by (simp add: prods update_inventory_pointwise)
  have lines: "\<exists>p p'. products s (ci_product item) = Some p
                    \<and> products s' (ci_product item) = Some p'
                    \<and> (if inventory_trackQuantity p
                        then p' = p\<lparr>inventory_quantity := inventory_quantity p - ci_quantity item,
                                    analytics_purchases := analytics_purchases p + ci_quantity item,
                                    analytics_revenue := analytics_revenue p + ci_total item\<rparr>
                        else p' = p)"
    if d: "distinct (map ci_product (cart_items cart_doc))" and mem: "item \<in> set (cart_items cart_doc)"
    for item
  proof -
    from verify_items_NoneD [OF verified mem] obtain p where
      p: "products s (ci_product item) = Some p" by blast
    from ordered_single_line [OF d mem] pointwise [of "ci_product item"] p
    have "products s' (ci_product item) = Some (adjust (ci_quantity item) (ci_total item) p)"
      by simp
    with p show ?thesis by (simp add: adjust_def)
  qed
  have tl: "user_carts (co_user req) s' = tl (user_carts (co_user req) s)"
    by (simp add: user_carts_def crts filter_findOneAndDelete)
  have none: "findOne (matches (ByUser (co_user req))) (carts s') = None"
    if "length (user_carts (co_user req) s) \<le> 1"
  proof -
    from that tl have "user_carts (co_user req) s' = []"
      by (cases "user_carts (co_user req) s") simp_all
    then show ?thesis
      by (simp add: findOne_None user_carts_def filter_empty_conv)
  qed
  from pointwise lines tl none show ?thesis by blast
qed

text \<open>Two example checkouts succeed: one of a cart with a widget line and an e-book
  line, one of a cart with the e-book line only.\<close>

lemma ex_checkout_found:
  "findOne (matches (ByUser (co_user ex_checkout))) (carts (ex_db [ex_cart items]))
     = Some (0, ex_cart items)"
  by (simp add: findOne_def ex_db_def ex_cart_def ex_checkout_def cart_pre_save_unfold)

lemma ex_checkout_ok:
  "\<not> isl (fst (checkout ex_checkout (ex_db [ex_cart [ex_widget_line, ex_ebook_line]])))"
  by (simp add: checkout_def ex_checkout_def ex_db_def ex_cart_def ex_widget_def ex_ebook_def
        ex_widget_line_def ex_ebook_line_def findOne_def cart_pre_save_unfold Let_def)

lemma ex_checkout_ebook_ok:
  "\<not> isl (fst (checkout ex_checkout (ex_db [ex_cart [ex_ebook_line]])))"
  by (simp add: checkout_def ex_checkout_def ex_db_def ex_cart_def ex_widget_def ex_ebook_def
        ex_ebook_line_def findOne_def cart_pre_save_unfold Let_def)

lemma ex_checkout_ebook_products:
  "products (snd (checkout ex_checkout (ex_db [ex_cart [ex_ebook_line]]))) ''p2'' = Some ex_ebook"
proof -
  from checkout_InrD [OF response_InrI [OF ex_checkout_ebook_ok]] ex_checkout_found [of "[ex_ebook_line]"]
  have "products (snd (checkout ex_checkout (ex_db [ex_cart [ex_ebook_line]])))
          = update_inventory (cart_items (ex_cart [ex_ebook_line]))
              (products (ex_db [ex_cart [ex_ebook_line]]))"
    by auto
  then show ?thesis
    by (simp add: update_inventory_pointwise adjust_def ex_db_def ex_ebook_def)
qed

theorem checkout_adjusts_tracked_inventory_witness:
  "products (snd (checkout ex_checkout (ex_db [ex_cart [ex_widget_line, ex_ebook_line]]))) ''p1''
     = Some ex_widget_sold
   \<and> products (snd (checkout ex_checkout (ex_db [ex_cart [ex_widget_line, ex_ebook_line]]))) ''p2''
     = Some ex_ebook
   \<and> findOne (matches (ByUser ''u1''))
       (carts (snd (checkout ex_checkout (ex_db [ex_cart [ex_widget_line, ex_ebook_line]]))))
     = None"
proof -
  let ?db = "ex_db [ex_cart [ex_widget_line, ex_ebook_line]]"
  let ?db' = "snd (checkout ex_checkout ?db)"
  note inst = checkout_adjusts_tracked_inventory
                [OF response_InrI [OF ex_checkout_ok] ex_checkout_found]
  have items: "cart_items (ex_cart [ex_widget_line, ex_ebook_line]) = [ex_widget_line, ex_ebook_line]"
    by (simp add: ex_cart_def)
  have d: "distinct (map ci_product (cart_items (ex_cart [ex_widget_line, ex_ebook_line])))"
    unfolding items by (simp add: ex_widget_line_def ex_ebook_line_def)
  have one: "length (user_carts (co_user ex_checkout) ?db) \<le> 1"
    by (simp add: user_carts_def ex_db_def)
  have mem: "ex_widget_line \<in> set (cart_items (ex_cart [ex_widget_line, ex_ebook_line]))"
    by (simp add: items)
  from inst [THEN conjunct2, THEN conjunct1, rule_format, OF d mem]
  have "\<exists>p p'. products ?db (ci_product ex_widget_line) = Some p
        \<and> products ?db' (ci_product ex_widget_line) = Some p'
        \<and> (if inventory_trackQuantity p
            then p' = p\<lparr>inventory_quantity := inventory_quantity p - ci_quantity ex_widget_line,
                        analytics_purchases := analytics_purchases p + ci_quantity ex_widget_line,
                        analytics_revenue := analytics_revenue p + ci_total ex_widget_line\<rparr>
            else p' = p)" .
  then have widget: "products ?db' ''p1'' = Some ex_widget_sold"
    by (auto simp: ex_widget_line_def ex_db_def ex_widget_def ex_widget_sold_def)
  from inst [THEN conjunct1, rule_format, of "''p2''"] have "products ?db' ''p2'' =
      map_option (adjust (ordered_quantity (cart_items (ex_cart [ex_widget_line, ex_ebook_line])) ''p2'')
                         (ordered_total (cart_items (ex_cart [ex_widget_line, ex_ebook_line])) ''p2''))
        (products ?db ''p2'')" .
  then have ebook: "products ?db' ''p2'' = Some ex_ebook"
    by (simp add: ex_db_def adjust_def ex_ebook_def)
  from inst [THEN conjunct2, THEN conjunct2, THEN conjunct2, rule_format, OF one]
  have "findOne (matches (ByUser (co_user ex_checkout))) (carts ?db') = None" .
  then have "findOne (matches (ByUser ''u1'')) (carts ?db') = None"
    by (simp add: ex_checkout_def)
  with widget ebook show ?thesis by simp
qed

text \<open>The claim as stated fails for a product that does not track quantity: the
  checkout of two e-books succeeds and leaves the e-book's stock and analytics as they
  were, not decreased and increased by the line's quantity.\<close>

theorem checkout_untracked_product_counterexample:
  "\<not> isl (fst (checkout ex_checkout (ex_db [ex_cart [ex_ebook_line]])))
   \<and> cart_items (ex_cart [ex_ebook_line]) = [ex_ebook_line]
   \<and> ci_product ex_ebook_line = ''p2'' \<and> ci_quantity ex_ebook_line = 2
   \<and> products (ex_db [ex_cart [ex_ebook_line]]) ''p2'' = Some ex_ebook
   \<and> products (snd (checkout ex_checkout (ex_db [ex_cart [ex_ebook_line]]))) ''p2'' = Some ex_ebook
   \<and> inventory_quantity ex_ebook \<noteq> inventory_quantity ex_ebook - ci_quantity ex_ebook_line
   \<and> analytics_purchases ex_ebook \<noteq> analytics_purchases ex_ebook + ci_quantity ex_ebook_line"
  using ex_checkout_ebook_ok ex_checkout_ebook_products
  by (simp add: ex_cart_def cart_pre_save_unfold ex_ebook_line_def ex_db_def)

text \<open>
  Claim C7. When a checkout succeeds, the lines of the stored order are the lines of the
  cart that \<^verbatim>\<open>findOne\<close> returned for the user: same product, unit price, quantity and
  line total, line by line, whatever the catalog prices are at that moment. A checkout
  request that carries a shipping address and a payment method fails with \<open>EmptyCart\<close>,
  leaving the database as it was, when the user has no cart or the cart has no line.
\<close>

theorem checkout_copies_cart_prices:
  "(checkout req s = (Inr ord, s')
      \<and> findOne (matches (ByUser (co_user req))) (carts s) = Some (pos, cart_doc)
    \<longrightarrow> orders s' (co_newId req) = Some ord
        \<and> map line_of_order_item (order_items ord) = map line_of_cart_item (cart_items cart_doc))
   \<and> (co_shippingAddress req \<noteq> None \<and> co_paymentMethod req \<noteq> None
        \<and> (findOne (matches (ByUser (co_user req))) (carts s) = None
             \<or> findOne (matches (ByUser (co_user req))) (carts s) = Some (pos, cart_doc)
                 \<and> cart_items cart_doc = [])
      \<longrightarrow> checkout req s = (Inl EmptyCart, s))"
proof (intro conjI impI)
  assume "checkout req s = (Inr ord, s')
      \<and> findOne (matches (ByUser (co_user req))) (carts s) = Some (pos, cart_doc)"
  then have ok: "checkout req s = (Inr ord, s')"
    and found: "findOne (matches (ByUser (co_user req))) (carts s) = Some (pos, cart_doc)"
    by simp_all
  from checkout_InrD [OF ok] found have
    verified: "verify_items (products s) (cart_items cart_doc) = None"
    and items: "order_items ord = build_order_items (products s) (cart_items cart_doc)"
    and stored: "orders s' = (orders s)(co_newId req \<mapsto> ord)"
    by auto
  from stored show "orders s' (co_newId req) = Some ord" by simp
  from items build_order_items_lines [OF verified]
  show "map line_of_order_item (order_items ord) = map line_of_cart_item (cart_items cart_doc)"
    by simp
next
  assume "co_shippingAddress req \<noteq> None \<and> co_paymentMethod req \<noteq> None
        \<and> (findOne (matches (ByUser (co_user req))) (carts s) = None
             \<or> findOne (matches (ByUser (co_user req))) (carts s) = Some (pos, cart_doc)
                 \<and> cart_items cart_doc = [])"
  then show "checkout req s = (Inl EmptyCart, s)"
    by (auto simp: checkout_def truthy_def split: option.splits)
qed

text \<open>The order of the example checkout carries the price 50 of the cart line, not the
  catalog price 60 of the widget; with no cart, and with a cart without lines, the
  checkout fails.\<close>

lemma ex_checkout_old_ok:
  "\<not> isl (fst (checkout ex_checkout (ex_db [ex_cart [ex_old_line]])))"
  by (simp add: checkout_def ex_checkout_def ex_db_def ex_cart_def ex_widget_def ex_ebook_def
        ex_old_line_def findOne_def cart_pre_save_unfold Let_def)

theorem checkout_copies_cart_prices_witness:
  "map line_of_order_item
       (order_items (projr (fst (checkout ex_checkout (ex_db [ex_cart [ex_old_line]])))))
     = [(''p1'', 50, 1, 50)]
   \<and> price_regular (the (products (ex_db [ex_cart [ex_old_line]]) ''p1'')) = 60
   \<and> checkout ex_checkout (ex_db []) = (Inl EmptyCart, ex_db [])
   \<and> checkout ex_checkout (ex_db [ex_cart []]) = (Inl EmptyCart, ex_db [ex_cart []])"
proof -
  note inst1 = checkout_copies_cart_prices
                 [where req = ex_checkout and s = "ex_db [ex_cart [ex_old_line]]"
                    and pos = 0 and cart_doc = "ex_cart [ex_old_line]", THEN conjunct1, rule_format,
                  OF conjI [OF response_InrI [OF ex_checkout_old_ok] ex_checkout_found]]
  note inst2 = checkout_copies_cart_prices
                 [where req = ex_checkout and s = "ex_db []", THEN conjunct2, rule_format]
  note inst3 = checkout_copies_cart_prices
                 [where req = ex_checkout and s = "ex_db [ex_cart []]"
                    and pos = 0 and cart_doc = "ex_cart []", THEN conjunct2, rule_format]
  from inst1 have "map line_of_order_item
       (order_items (projr (fst (checkout ex_checkout (ex_db [ex_cart [ex_old_line]])))))
     = [(''p1'', 50, 1, 50)]"
    by (simp add: ex_cart_def cart_pre_save_unfold ex_old_line_def line_of_cart_item_def)
  moreover have "price_regular (the (products (ex_db [ex_cart [ex_old_line]]) ''p1'')) = 60"
    by (simp add: ex_db_def ex_widget_def)
  moreover have "checkout ex_checkout (ex_db []) = (Inl EmptyCart, ex_db [])"
    by (rule inst2) (simp add: ex_checkout_def truthy_def ex_db_def findOne_def)
  moreover have "checkout ex_checkout (ex_db [ex_cart []]) = (Inl EmptyCart, ex_db [ex_cart []])"
    by (rule inst3) (simp add: ex_checkout_def truthy_def ex_db_def findOne_def ex_cart_def cart_pre_save_unfold)
  ultimately show ?thesis by simp
qed

subsection \<open>Cancellation\<close>

lemma cancel_legal:
  assumes "find_user_order s (cn_orderId req) (cn_user req) = Some ord"
      and "orderStatus ord = Pending \<or> orderStatus ord = Confirmed"
  shows "cancel req s =
           (Inr (order_pre_save (ord\<lparr>orderStatus := Cancelled\<rparr>)),
            s\<lparr>orders := (orders s)(cn_orderId req \<mapsto> order_pre_save (ord\<lparr>orderStatus := Cancelled\<rparr>)),
              products := restore_inventory (order_items ord) (products s)\<rparr>)"
  using assms by (auto simp: cancel_def Let_def save_order_def)









subsection \<open>Payment webhook\<close>

lemma ex_order_stored: "orders (ex_order_db st pst) ''o1'' = Some (ex_order st pst)"
  by (simp add: ex_order_db_def)

text \<open>
  Claim C4. The claim says that the deliveries of a \<^verbatim>\<open>payment_intent.succeeded\<close> event
  leave the order paid and confirmed. In the application they do not: \<^verbatim>\<open>express.json\<close>
  has parsed the body before \<^verbatim>\<open>express.raw\<close> on the route can keep its bytes, so the
  signature check fails for every delivery, which is answered with
  \<open>SignatureInvalid\<close> and leaves the database as it is. The example order is still
  pending and unpaid after the event has been delivered at 2000 and again at 2500.
\<close>

theorem webhook_delivery_fails_signature_check:
  "express_raw True (express_json True Unread) = ParsedObject
   \<and> handleStripeWebhook ParsedObject (wh_event (payment_succeeded ''o1'' 2000)) = None
   \<and> webhook (payment_succeeded ''o1'' 2000) (ex_order_db Pending PaymentPending)
     = (Inl SignatureInvalid, ex_order_db Pending PaymentPending)
   \<and> webhook (payment_succeeded ''o1'' 2500)
       (snd (webhook (payment_succeeded ''o1'' 2000) (ex_order_db Pending PaymentPending)))
     = (Inl SignatureInvalid, ex_order_db Pending PaymentPending)
   \<and> map_option paymentStatus (orders (ex_order_db Pending PaymentPending) ''o1'')
       = Some PaymentPending
   \<and> map_option orderStatus (orders (ex_order_db Pending PaymentPending) ''o1'') = Some Pending
   \<and> map_option paidAt (orders (ex_order_db Pending PaymentPending) ''o1'') = Some None"
  by (simp add: webhook_SignatureInvalid ex_order_stored ex_order_def express_json_def
        express_raw_def handleStripeWebhook_def)

subsection \<open>Refunds\<close>

text \<open>
  Claim C8. For an existing order, a refund request fails with \<open>InvalidTransition\<close>
  and leaves the database unchanged when the payment status is not paid. When the
  request succeeds, the payment status was paid, and the order is stored with payment
  status refunded, order status cancelled, \<^verbatim>\<open>refundedAt\<close> set to the time of the request
  and, when a reason is given, that reason (trimmed by the schema) as \<^verbatim>\<open>refundReason\<close>.
\<close>

theorem refund_guard_and_effects:
  assumes "orders s (rf_orderId req) = Some ord"
  shows "(paymentStatus ord \<noteq> Paid \<longrightarrow> refund req s = (Inl InvalidTransition, s))
       \<and> (refund req s = (Inr refunded, s') \<longrightarrow>
            paymentStatus ord = Paid
            \<and> orders s' = (orders s)(rf_orderId req \<mapsto> refunded)
            \<and> paymentStatus refunded = Refunded
            \<and> orderStatus refunded = Cancelled
            \<and> refundedAt refunded = Some (rf_now req)
            \<and> refundReason refunded = (if truthy (rf_reason req)
                                        then map_option trim (rf_reason req)
                                        else refundReason ord))"
  using assms
  by (auto simp: refund_def Let_def save_order_def split: if_splits)

text \<open>The paid example order is refunded at 3000 for the reason given; the same request
  for the order while its payment is pending is refused.\<close>

lemma ex_refund_stored: "orders (ex_order_db st pst) (rf_orderId ex_refund) = Some (ex_order st pst)"
  by (simp add: ex_order_db_def ex_refund_def)

lemma ex_refund_ok: "\<not> isl (fst (refund ex_refund (ex_order_db Confirmed Paid)))"
  by (simp add: refund_def ex_refund_def ex_order_db_def ex_order_def truthy_def Let_def)

theorem refund_guard_and_effects_witness:
  "refund ex_refund (ex_order_db Pending PaymentPending)
     = (Inl InvalidTransition, ex_order_db Pending PaymentPending)
   \<and> paymentStatus (projr (fst (refund ex_refund (ex_order_db Confirmed Paid)))) = Refunded
   \<and> orderStatus (projr (fst (refund ex_refund (ex_order_db Confirmed Paid)))) = Cancelled
   \<and> refundedAt (projr (fst (refund ex_refund (ex_order_db Confirmed Paid)))) = Some 3000
   \<and> refundReason (projr (fst (refund ex_refund (ex_order_db Confirmed Paid)))) = Some ''damaged''"
proof -
  from refund_guard_and_effects [OF ex_refund_stored, THEN conjunct1, of Pending PaymentPending]
  have "refund ex_refund (ex_order_db Pending PaymentPending)
          = (Inl InvalidTransition, ex_order_db Pending PaymentPending)"
    by (simp add: ex_order_def)
  moreover
  from refund_guard_and_effects [OF ex_refund_stored, THEN conjunct2, rule_format,
         OF response_InrI [OF ex_refund_ok]]
  have "paymentStatus (projr (fst (refund ex_refund (ex_order_db Confirmed Paid)))) = Refunded
   \<and> orderStatus (projr (fst (refund ex_refund (ex_order_db Confirmed Paid)))) = Cancelled
   \<and> refundedAt (projr (fst (refund ex_refund (ex_order_db Confirmed Paid)))) = Some 3000
   \<and> refundReason (projr (fst (refund ex_refund (ex_order_db Confirmed Paid)))) = Some ''damaged''"
    by (simp add: ex_refund_def truthy_def trim_def is_space_def)
  ultimately show ?thesis by simp
qed

text \<open>
  Claim C9. A refund request never changes a product or a cart; when it succeeds the
  order is stored with order status cancelled. A successful cancel request also leaves
  the order cancelled, but with the products adjusted by the restore loop over the
  order's lines: the cancelled state is reached with and without the restoration.
\<close>

theorem refund_leaves_products_unchanged:
  "products (snd (refund req s)) = products s
   \<and> carts (snd (refund req s)) = carts s
   \<and> (refund req s = (Inr refunded, s') \<longrightarrow>
         orderStatus refunded = Cancelled \<and> orders s' (rf_orderId req) = Some refunded)
   \<and> (cancel creq s = (Inr cancelled, s'') \<longrightarrow>
         orderStatus cancelled = Cancelled
         \<and> orders s'' (cn_orderId creq) = Some cancelled
         \<and> products s'' = restore_inventory (order_items cancelled) (products s))"
proof (intro conjI impI)
  from refund_saves [of s req] show "products (snd (refund req s)) = products s"
    by (auto simp: saves_order_def save_order_def)
  from refund_saves [of s req] show "carts (snd (refund req s)) = carts s"
    by (rule saves_order_carts)
next
  assume "refund req s = (Inr refunded, s')"
  then show "orderStatus refunded = Cancelled" and "orders s' (rf_orderId req) = Some refunded"
    by (auto simp: refund_def Let_def save_order_def split: option.splits if_splits)
next
  assume ok: "cancel creq s = (Inr cancelled, s'')"
  then obtain ord where found: "find_user_order s (cn_orderId creq) (cn_user creq) = Some ord"
    by (auto simp: cancel_def split: option.splits)
  with ok have legal: "orderStatus ord = Pending \<or> orderStatus ord = Confirmed"
    by (auto simp: cancel_def split: if_splits)
  from cancel_legal [OF found legal] ok
  show "orderStatus cancelled = Cancelled"
    and "orders s'' (cn_orderId creq) = Some cancelled"
    and "products s'' = restore_inventory (order_items cancelled) (products s)"
    by auto
qed

text \<open>The paid and confirmed example order, refunded and cancelled: after the refund the
  widget still has the stock 3 of after the sale, after the cancellation it has 5.\<close>

lemma ex_cancel_ok: "\<not> isl (fst (cancel ex_cancel (ex_order_db Confirmed Paid)))"
  by (simp add: cancel_def ex_cancel_def ex_order_db_def ex_order_def find_user_order_def Let_def)

theorem refund_leaves_products_unchanged_witness:
  "products (snd (refund ex_refund (ex_order_db Confirmed Paid))) ''p1'' = Some ex_widget_sold
   \<and> orderStatus (projr (fst (refund ex_refund (ex_order_db Confirmed Paid)))) = Cancelled
   \<and> orderStatus (projr (fst (cancel ex_cancel (ex_order_db Confirmed Paid)))) = Cancelled
   \<and> products (snd (cancel ex_cancel (ex_order_db Confirmed Paid))) ''p1'' = Some ex_widget"
proof -
  note inst = refund_leaves_products_unchanged
     [where req = ex_refund and s = "ex_order_db Confirmed Paid" and creq = ex_cancel]
  from inst have "products (snd (refund ex_refund (ex_order_db Confirmed Paid))) ''p1''
      = Some ex_widget_sold"
    by (simp add: ex_order_db_def)
  moreover
  from inst [THEN conjunct2, THEN conjunct2, THEN conjunct1, rule_format, OF response_InrI [OF ex_refund_ok]]
  have "orderStatus (projr (fst (refund ex_refund (ex_order_db Confirmed Paid)))) = Cancelled"
    by simp
  moreover
  note c = inst [THEN conjunct2, THEN conjunct2, THEN conjunct2, rule_format, OF response_InrI [OF ex_cancel_ok]]
  from c have "orderStatus (projr (fst (cancel ex_cancel (ex_order_db Confirmed Paid)))) = Cancelled"
    by simp
  moreover
  have "order_items (projr (fst (cancel ex_cancel (ex_order_db Confirmed Paid))))
          = order_items (ex_order Confirmed Paid)"
    by (simp add: cancel_def ex_cancel_def ex_order_db_def find_user_order_def Let_def
          save_order_def ex_order_def)
  with c have "products (snd (cancel ex_cancel (ex_order_db Confirmed Paid))) ''p1'' = Some ex_widget"
    by (simp add: ex_order_def ex_order_db_def ex_widget_sold_def ex_widget_def)
  ultimately show ?thesis by simp
qed

end
